theory Spec2Isabelle
  imports Complex_Main "HOL-Library.Log_Nat" "HOL-Library.Sublist"
begin

section \<open>Data model of \<^verbatim>\<open>src/index.tsx\<close>\<close>

text \<open>
  The application keeps everything in React state. The model below covers the
  booking-resource core of \<^verbatim>\<open>index.tsx\<close>: the interfaces \<^verbatim>\<open>Vehicle\<close>,
  \<^verbatim>\<open>VehicleTypeDetails\<close>, \<^verbatim>\<open>Driver\<close> and \<^verbatim>\<open>Booking\<close> (lines 5-54), and the handlers
  \<^verbatim>\<open>isTimeOverlapping\<close>, \<^verbatim>\<open>estimateFare\<close>, \<^verbatim>\<open>handleAssignDriver\<close>,
  \<^verbatim>\<open>handleCancelBooking\<close>, \<^verbatim>\<open>handlePayment\<close>, \<^verbatim>\<open>calculateSimulatedETA\<close> and the
  \<^verbatim>\<open>handleSave\<close> of \<^verbatim>\<open>AdminBookingItem\<close>.

  A JavaScript \<^verbatim>\<open>number\<close> is an IEEE 754 double. Its values are modelled by
  \<open>number\<close>: not-a-number, the two infinities and the finite values, each finite
  value given by the rational it denotes. The sign of zero is not represented; no
  operation modelled here tells \<^verbatim>\<open>-0\<close> from \<^verbatim>\<open>+0\<close>.

  A JavaScript string is modelled by \<open>string\<close>, so by a sequence of code units
  below 256 (the Latin-1 range of UTF-16).
\<close>

datatype number = NaN | PosInf | NegInf | Fin rat

record vehicle =
  plate :: string
  model :: string

record vehicleTypeDetails =
  capacity :: number
  vehicles :: "vehicle list"

text \<open>\<^verbatim>\<open>status: 'online' | 'offline'\<close> of a \<^verbatim>\<open>Driver\<close>.\<close>

datatype driver_status = Online | Offline

record driver =
  name :: string
  phone :: string
  username :: string
  password :: "string option"
  status :: driver_status
  position :: "(number \<times> number) option"
  avatar :: "string option"

text \<open>
  The string-literal unions of \<^verbatim>\<open>Booking\<close>: \<^verbatim>\<open>bookingStatus\<close>,
  \<^verbatim>\<open>driverStatus\<close> (which has the third value \<^verbatim>\<open>'arrived'\<close>) and \<^verbatim>\<open>paymentStatus\<close>.
\<close>

datatype booking_status = Confirmed | Assigned | Cancelled

datatype trip_status = TripOnline | TripOffline | TripArrived

datatype payment_status = Pending | Paid

record booking =
  confirmationNumber :: string
  confirmationMessage :: string
  estimatedFare :: number
  estimatedTripDuration :: string
  estimatedArrivalTime :: string
  guestName :: string
  guestPhone :: string
  location :: string
  date :: string
  time :: string
  serviceType :: string
  vehicleType :: string
  driverName :: "string option"
  driverPhone :: "string option"
  assignedVehicle :: "vehicle option"
  bookingStatus :: booking_status
  driverStatus :: "trip_status option"
  driverPosition :: "(number \<times> number) option"
  paymentStatus :: payment_status
  paymentId :: "string option"
  eta :: "string option"

section \<open>Overlap detector: \<^verbatim>\<open>isTimeOverlapping\<close> (lines 183-196)\<close>

text \<open>
  \<^verbatim>\<open>new Date(`${date}T${time}`).getTime()\<close> is a built-in of the platform. It is a
  parameter \<open>getTime\<close> of the model: it maps the string to \<open>None\<close> where
  JavaScript gives \<^verbatim>\<open>NaN\<close>, and to the time value in milliseconds otherwise. A
  time value is an integer of magnitude at most 8.64e15, so adding
  \<^verbatim>\<open>DURATION_MS\<close> stays below \<open>2^53\<close> and the double addition is exact: the
  model computes in \<open>int\<close>.
\<close>

type_synonym date_parser = "string \<Rightarrow> int option"

definition DURATION_MS :: int where
  "DURATION_MS = 90 * 60 * 1000"

definition isTimeOverlapping :: "date_parser \<Rightarrow> booking \<Rightarrow> booking \<Rightarrow> bool" where
  "isTimeOverlapping getTime bookingA bookingB =
     (case getTime (date bookingA @ ''T'' @ time bookingA) of
        None \<Rightarrow> False
      | Some startA \<Rightarrow>
          (let endA = startA + DURATION_MS in
           case getTime (date bookingB @ ''T'' @ time bookingB) of
             None \<Rightarrow> False
           | Some startB \<Rightarrow>
               (let endB = startB + DURATION_MS in
                startA < endB \<and> endA > startB)))"

section \<open>Double arithmetic\<close>

text \<open>
  The arithmetic of \<^verbatim>\<open>estimateFare\<close> and \<^verbatim>\<open>calculateSimulatedETA\<close> is double
  arithmetic: every operation returns the exact result rounded to the nearest
  double, ties to the even significand. \<open>fl\<close> is that rounding: 53 significant
  bits, exponents down to the subnormal range, overflow to infinity. A decimal
  literal such as \<^verbatim>\<open>0.18\<close> denotes \<open>fl (18 / 100)\<close>; an integer literal below
  \<open>2^53\<close> denotes itself.
\<close>

definition pow2 :: "int \<Rightarrow> rat" where
  "pow2 e = (if 0 \<le> e then 2 ^ nat e else 1 / 2 ^ nat (- e))"

text \<open>For \<open>x > 0\<close>, \<open>ilog2 x\<close> is the \<open>e\<close> with \<open>2^e \<le> x < 2^(e+1)\<close>.\<close>

definition ilog2 :: "rat \<Rightarrow> int" where
  "ilog2 x = (let d = bitlen (fst (quotient_of x)) - bitlen (snd (quotient_of x))
              in if pow2 d \<le> x then d else d - 1)"

definition round_half_even :: "rat \<Rightarrow> int" where
  "round_half_even x =
     (let f = \<lfloor>x\<rfloor>; r = x - of_int f
      in if r < 1 / 2 then f else if 1 / 2 < r then f + 1
         else if even f then f else f + 1)"

definition fl_pos :: "rat \<Rightarrow> rat" where
  "fl_pos x =
     (let q = max (ilog2 x) (- 1022) - 52
      in of_int (round_half_even (x / pow2 q)) * pow2 q)"

text \<open>
  The rounded magnitude overflows when it reaches \<open>2^1024\<close>, which a magnitude
  below \<open>2^1023\<close> cannot do.
\<close>

definition fl :: "rat \<Rightarrow> number" where
  "fl x =
     (if x = 0 then Fin 0
      else (let y = fl_pos \<bar>x\<bar>
            in if ilog2 \<bar>x\<bar> < 1023 then Fin (if 0 < x then y else - y)
               else if pow2 1024 \<le> y then (if 0 < x then PosInf else NegInf)
               else Fin (if 0 < x then y else - y)))"

text \<open>Comparisons: every comparison with \<^verbatim>\<open>NaN\<close> is false.\<close>

fun num_lt :: "number \<Rightarrow> number \<Rightarrow> bool" where
  "num_lt NaN y = False"
| "num_lt x NaN = False"
| "num_lt (Fin a) (Fin b) = (a < b)"
| "num_lt PosInf y = False"
| "num_lt x NegInf = False"
| "num_lt NegInf y = True"
| "num_lt x PosInf = True"

definition num_gt :: "number \<Rightarrow> number \<Rightarrow> bool" where
  "num_gt x y = num_lt y x"

definition num_le :: "number \<Rightarrow> number \<Rightarrow> bool" where
  "num_le x y = (x \<noteq> NaN \<and> y \<noteq> NaN \<and> \<not> num_lt y x)"

definition num_ge :: "number \<Rightarrow> number \<Rightarrow> bool" where
  "num_ge x y = num_le y x"

fun num_neg :: "number \<Rightarrow> number" where
  "num_neg NaN = NaN"
| "num_neg PosInf = NegInf"
| "num_neg NegInf = PosInf"
| "num_neg (Fin a) = Fin (- a)"

fun num_add :: "number \<Rightarrow> number \<Rightarrow> number" where
  "num_add (Fin a) (Fin b) = fl (a + b)"
| "num_add NaN y = NaN"
| "num_add x NaN = NaN"
| "num_add PosInf NegInf = NaN"
| "num_add NegInf PosInf = NaN"
| "num_add PosInf y = PosInf"
| "num_add NegInf y = NegInf"
| "num_add x PosInf = PosInf"
| "num_add x NegInf = NegInf"

definition num_sub :: "number \<Rightarrow> number \<Rightarrow> number" where
  "num_sub x y = num_add x (num_neg y)"

text \<open>An infinity times zero is \<^verbatim>\<open>NaN\<close>; otherwise the signs multiply.\<close>

definition inf_times :: "bool \<Rightarrow> number \<Rightarrow> number" where
  "inf_times positive y =
     (if num_lt (Fin 0) y then (if positive then PosInf else NegInf)
      else if num_lt y (Fin 0) then (if positive then NegInf else PosInf)
      else NaN)"

fun num_mul :: "number \<Rightarrow> number \<Rightarrow> number" where
  "num_mul (Fin a) (Fin b) = fl (a * b)"
| "num_mul NaN y = NaN"
| "num_mul x NaN = NaN"
| "num_mul PosInf y = inf_times True y"
| "num_mul NegInf y = inf_times False y"
| "num_mul x PosInf = inf_times True x"
| "num_mul x NegInf = inf_times False x"

text \<open>
  \<^verbatim>\<open>Math.round\<close>: the nearest integer, a tie going towards \<open>+\<infinity>\<close>. The result
  is exact (a double of magnitude \<open>2^52\<close> or more is an integer already).
\<close>

fun math_round :: "number \<Rightarrow> number" where
  "math_round (Fin a) = Fin (of_int \<lfloor>a + 1 / 2\<rfloor>)"
| "math_round x = x"

section \<open>String built-ins\<close>

text \<open>
  \<^verbatim>\<open>toLowerCase\<close>, \<^verbatim>\<open>trim\<close>, \<^verbatim>\<open>includes\<close> and \<^verbatim>\<open>slice(-4)\<close> on code units below
  256: the upper-case letters are A-Z and U+00C0-U+00DE without U+00D7, each 32
  below its lower-case letter; the white space and line terminators are U+0009
  to U+000D, U+0020 and U+00A0.
\<close>

definition toLowerCase_char :: "char \<Rightarrow> char" where
  "toLowerCase_char c =
     (let n = (of_char c :: nat)
      in if (65 \<le> n \<and> n \<le> 90) \<or> (192 \<le> n \<and> n \<le> 222 \<and> n \<noteq> 215)
         then char_of (n + 32) else c)"

definition toLowerCase :: "string \<Rightarrow> string" where
  "toLowerCase s = map toLowerCase_char s"

definition isWhiteSpace :: "char \<Rightarrow> bool" where
  "isWhiteSpace c = ((of_char c :: nat) \<in> {9, 10, 11, 12, 13, 32, 160})"

definition trim :: "string \<Rightarrow> string" where
  "trim s = rev (dropWhile isWhiteSpace (rev (dropWhile isWhiteSpace s)))"

fun str_includes :: "string \<Rightarrow> string \<Rightarrow> bool" where
  "str_includes [] t = (t = [])"
| "str_includes (c # s) t = (prefix t (c # s) \<or> str_includes s t)"

definition slice_last4 :: "string \<Rightarrow> string" where
  "slice_last4 s = drop (length s - 4) s"

section \<open>Fare estimator: \<^verbatim>\<open>estimateFare\<close> (lines 268-304)\<close>

text \<open>
  \<^verbatim>\<open>estimateFare\<close> reads the form state \<^verbatim>\<open>location\<close> and
  \<^verbatim>\<open>selectedVehicleType\<close>; they are the two arguments of the model.
\<close>

definition GST_RATE :: number where
  "GST_RATE = fl (18 / 100)"

definition SUV_MULTIPLIER :: number where
  "SUV_MULTIPLIER = fl (15 / 10)"

definition FARE_AIRPORT :: number where
  "FARE_AIRPORT = Fin 500"

definition FARE_STATION :: number where
  "FARE_STATION = Fin 250"

definition FARE_OTHER_ABOVE_5KM :: number where
  "FARE_OTHER_ABOVE_5KM = Fin 500"

definition baseFare :: "string \<Rightarrow> number" where
  "baseFare normalizedLocation =
     (if str_includes normalizedLocation ''airport'' then FARE_AIRPORT
      else if str_includes normalizedLocation ''jabalpur railway station''
            \<or> str_includes normalizedLocation ''madan mahal railway station''
            \<or> str_includes normalizedLocation ''jabalpur station''
            \<or> str_includes normalizedLocation ''madan mahal station''
      then FARE_STATION
      else FARE_OTHER_ABOVE_5KM)"

definition estimateFare :: "string \<Rightarrow> string \<Rightarrow> number" where
  "estimateFare location_text selectedVehicleType =
     (let normalizedLocation = trim (toLowerCase location_text);
          fareBeforeGst =
            (if selectedVehicleType = ''SUV''
             then num_mul (baseFare normalizedLocation) SUV_MULTIPLIER
             else baseFare normalizedLocation);
          finalFare = num_mul fareBeforeGst (num_add (Fin 1) GST_RATE)
      in math_round finalFare)"

section \<open>Simulated ETA: \<^verbatim>\<open>calculateSimulatedETA\<close> (lines 567-576)\<close>

text \<open>
  The template literal converts \<^verbatim>\<open>remainingMinutes\<close> with the platform's
  number-to-string conversion, the parameter \<open>toString\<close> of the model.
\<close>

definition calculateSimulatedETA :: "(number \<Rightarrow> string) \<Rightarrow> number \<Rightarrow> string" where
  "calculateSimulatedETA toString progress =
     (if num_ge progress (Fin 1) then ''Arrived''
      else if num_gt progress (fl (95 / 100)) then ''Arriving now''
      else (let totalMinutes = Fin 15;
                remainingMinutes =
                  math_round (num_mul totalMinutes (num_sub (Fin 1) progress))
            in if num_le remainingMinutes (Fin 1) then ''Less than a minute''
               else ''approx. '' @ toString remainingMinutes @ '' mins''))"

section \<open>Application state\<close>

text \<open>
  The React state the handlers read and write. \<^verbatim>\<open>vehicleTypes\<close> is a
  \<^verbatim>\<open>Record<string, VehicleTypeDetails>\<close>: an association list in the order in
  which \<^verbatim>\<open>Object.keys\<close> lists the keys. \<^verbatim>\<open>assignmentError\<close> is the state of the
  \<^verbatim>\<open>AdminBookingItem\<close> whose \<^verbatim>\<open>handleSave\<close> runs, \<^verbatim>\<open>justAssigned\<close> that of the
  admin dashboard; all the other fields are state of \<^verbatim>\<open>App\<close>. A notification is
  its message and type; its \<^verbatim>\<open>Date.now()\<close> id and its removal after five
  seconds are not modelled, nor is the reset of \<^verbatim>\<open>justAssigned\<close> after 1.5
  seconds.
\<close>

datatype notification_type = Success | Error | Info

record app_state =
  bookings :: "booking list"
  drivers :: "driver list"
  vehicleTypes :: "(string \<times> vehicleTypeDetails) list"
  notifications :: "(string \<times> notification_type) list"
  isEditingAssignment :: "string option"
  lastBooking :: "booking option"
  guestBookings :: "booking list"
  selectedBooking :: "booking option"
  justAssigned :: "string option"
  assignmentError :: string
  razorpayKey :: string

text \<open>
  \<^verbatim>\<open>AdminDashboard\<close> (line 953) and \<^verbatim>\<open>AdminBookingItem\<close> (line 1200) are
  components declared in the body of \<^verbatim>\<open>App\<close> and rendered as elements (lines
  2301 and 1553). Every render of \<^verbatim>\<open>App\<close> declares them anew, so an update of
  a state of \<^verbatim>\<open>App\<close> unmounts the dashboard with its items and mounts new
  ones: their own state starts again from its initial value, and an update
  queued on the unmounted instance in the same handler is lost. An update of
  the item's own state alone re-renders the item only and is kept.
\<close>

definition rerender_App :: "app_state \<Rightarrow> app_state" where
  "rerender_App s = s\<lparr> justAssigned := None, assignmentError := [] \<rparr>"

text \<open>\<^verbatim>\<open>addNotification\<close> (lines 175-181) sets the state \<^verbatim>\<open>notifications\<close> of \<^verbatim>\<open>App\<close>.\<close>

definition addNotification :: "string \<Rightarrow> notification_type \<Rightarrow> app_state \<Rightarrow> app_state" where
  "addNotification message type s =
     rerender_App (s\<lparr>notifications := notifications s @ [(message, type)]\<rparr>)"

section \<open>Booking creation: the object literal of \<^verbatim>\<open>handleBooking\<close> (lines 340-359)\<close>

text \<open>
  \<^verbatim>\<open>resultJson\<close> is the answer of the text-generation service: it supplies the
  confirmation number. The new booking is appended to \<^verbatim>\<open>bookings\<close>; nothing
  compares its confirmation number with those already stored.
\<close>

record resultJson =
  r_confirmationNumber :: string
  r_confirmationMessage :: string
  r_estimatedTripDuration :: string
  r_estimatedArrivalTime :: string

record booking_form =
  f_guestName :: string
  f_guestPhone :: string
  f_location :: string
  f_date :: string
  f_time :: string
  f_serviceType :: string
  f_selectedVehicleType :: string

definition newBooking :: "resultJson \<Rightarrow> booking_form \<Rightarrow> booking" where
  "newBooking r f =
     \<lparr> confirmationNumber = r_confirmationNumber r,
       confirmationMessage = r_confirmationMessage r,
       estimatedFare = estimateFare (f_location f) (f_selectedVehicleType f),
       estimatedTripDuration = r_estimatedTripDuration r,
       estimatedArrivalTime = r_estimatedArrivalTime r,
       guestName = f_guestName f,
       guestPhone = f_guestPhone f,
       location = f_location f,
       date = f_date f,
       time = f_time f,
       serviceType = f_serviceType f,
       vehicleType = f_selectedVehicleType f,
       driverName = None,
       driverPhone = None,
       assignedVehicle = None,
       bookingStatus = Confirmed,
       driverStatus = Some TripOffline,
       driverPosition = Some (Fin 15, Fin 50),
       paymentStatus = Pending,
       paymentId = None,
       eta = None \<rparr>"

section \<open>Assignment: \<^verbatim>\<open>handleAssignDriver\<close> (lines 442-456)\<close>

text \<open>
  The three local constants \<^verbatim>\<open>driver\<close>, \<^verbatim>\<open>vehicleTypeKey\<close> and \<^verbatim>\<open>vehicle\<close>.
  \<^verbatim>\<open>find\<close> returns the first match; \<^verbatim>\<open>vehicleTypeKey ? ... : null\<close> also takes
  the empty key for absent.
\<close>

definition assign_driver :: "driver list \<Rightarrow> string \<Rightarrow> driver option" where
  "assign_driver ds driverName' = find (\<lambda>d. name d = driverName') ds"

definition assign_vehicleTypeKey ::
  "(string \<times> vehicleTypeDetails) list \<Rightarrow> string \<Rightarrow> string option" where
  "assign_vehicleTypeKey vts vehiclePlate =
     find (\<lambda>key. case map_of vts key of
                    None \<Rightarrow> False
                  | Some details \<Rightarrow> list_ex (\<lambda>v. plate v = vehiclePlate) (vehicles details))
          (map fst vts)"

definition assign_vehicle ::
  "(string \<times> vehicleTypeDetails) list \<Rightarrow> string \<Rightarrow> vehicle option" where
  "assign_vehicle vts vehiclePlate =
     (case assign_vehicleTypeKey vts vehiclePlate of
        None \<Rightarrow> None
      | Some key \<Rightarrow>
          if key = [] then None
          else (case map_of vts key of
                  None \<Rightarrow> None
                | Some details \<Rightarrow> find (\<lambda>v. plate v = vehiclePlate) (vehicles details)))"

text \<open>
  \<^verbatim>\<open>driver?.phone || null\<close>: no driver, or an empty phone, gives \<^verbatim>\<open>null\<close>.
  \<^verbatim>\<open>driver?.status || 'offline'\<close>: no driver gives \<^verbatim>\<open>'offline'\<close>.
\<close>

definition phone_or_null :: "driver option \<Rightarrow> string option" where
  "phone_or_null d =
     (case d of None \<Rightarrow> None
      | Some dr \<Rightarrow> if phone dr = [] then None else Some (phone dr))"

definition status_or_offline :: "driver option \<Rightarrow> trip_status" where
  "status_or_offline d =
     (case d of None \<Rightarrow> TripOffline
      | Some dr \<Rightarrow> (case status dr of Online \<Rightarrow> TripOnline | Offline \<Rightarrow> TripOffline))"

text \<open>The object written for the booking whose confirmation number matches.\<close>

definition assign_fields :: "driver list \<Rightarrow> (string \<times> vehicleTypeDetails) list
    \<Rightarrow> string \<Rightarrow> string \<Rightarrow> booking \<Rightarrow> booking" where
  "assign_fields ds vts driverName' vehiclePlate b =
     b\<lparr> driverName := Some driverName',
        driverPhone := phone_or_null (assign_driver ds driverName'),
        assignedVehicle := assign_vehicle vts vehiclePlate,
        driverStatus := Some (status_or_offline (assign_driver ds driverName')),
        bookingStatus := Assigned \<rparr>"

definition handleAssignDriver :: "string \<Rightarrow> string \<Rightarrow> string \<Rightarrow> app_state \<Rightarrow> app_state" where
  "handleAssignDriver bookingConfirmation driverName' vehiclePlate s =
     (addNotification (''Driver assigned to booking #'' @ slice_last4 bookingConfirmation) Success
        (s\<lparr> bookings :=
              map (\<lambda>b. if confirmationNumber b = bookingConfirmation
                        then assign_fields (drivers s) (vehicleTypes s) driverName' vehiclePlate b
                        else b)
                  (bookings s) \<rparr>))
       \<lparr> isEditingAssignment := None \<rparr>"

text \<open>
  \<^verbatim>\<open>localHandleAssignDriver\<close> of the admin dashboard (lines 985-989). Its
  \<^verbatim>\<open>setJustAssigned\<close> is queued on the dashboard that the updates of
  \<^verbatim>\<open>handleAssignDriver\<close> unmount: \<^verbatim>\<open>justAssigned\<close> is null afterwards.
\<close>

definition localHandleAssignDriver :: "string \<Rightarrow> string \<Rightarrow> string \<Rightarrow> app_state \<Rightarrow> app_state" where
  "localHandleAssignDriver bookingConfirmation driverName' vehiclePlate s =
     rerender_App
       ((handleAssignDriver bookingConfirmation driverName' vehiclePlate s)
          \<lparr> justAssigned := Some bookingConfirmation \<rparr>)"

section \<open>Validated assignment: \<^verbatim>\<open>handleSave\<close> (lines 1273-1316)\<close>

text \<open>
  \<^verbatim>\<open>handleSave\<close> belongs to the list item of one booking, its \<^verbatim>\<open>booking\<close> prop;
  \<^verbatim>\<open>assignment\<close> is the pair of the selected driver name and vehicle plate. The
  two \<^verbatim>\<open>bookings.some(...)\<close> are the constants \<open>driverIsBooked\<close> and
  \<open>vehicleIsBooked\<close>. A rejected call returns before \<^verbatim>\<open>localHandleAssignDriver\<close>.
  The rejection for a missing selection leaves its message in
  \<^verbatim>\<open>assignmentError\<close>. The three other rejections (\<open>reject\<close>) also call
  \<^verbatim>\<open>addNotification\<close>: the item is remounted, so that the message stays in the
  notification and \<^verbatim>\<open>assignmentError\<close> is empty afterwards.
\<close>

definition driverIsBooked :: "date_parser \<Rightarrow> booking \<Rightarrow> string \<Rightarrow> booking list \<Rightarrow> bool" where
  "driverIsBooked getTime booking a_driver bs =
     list_ex (\<lambda>b. confirmationNumber b \<noteq> confirmationNumber booking
                 \<and> driverName b = Some a_driver
                 \<and> bookingStatus b \<noteq> Cancelled
                 \<and> isTimeOverlapping getTime booking b) bs"

definition vehicleIsBooked :: "date_parser \<Rightarrow> booking \<Rightarrow> string \<Rightarrow> booking list \<Rightarrow> bool" where
  "vehicleIsBooked getTime booking a_vehicle bs =
     list_ex (\<lambda>b. confirmationNumber b \<noteq> confirmationNumber booking
                 \<and> map_option plate (assignedVehicle b) = Some a_vehicle
                 \<and> bookingStatus b \<noteq> Cancelled
                 \<and> isTimeOverlapping getTime booking b) bs"

definition driverIsOffline :: "driver list \<Rightarrow> string \<Rightarrow> bool" where
  "driverIsOffline ds a_driver =
     (map_option status (find (\<lambda>d. name d = a_driver) ds) = Some Offline)"

text \<open>
  The rejection with a notification: \<^verbatim>\<open>setAssignmentError(errorMessage)\<close>, then
  \<^verbatim>\<open>addNotification(errorMessage, "error")\<close>, whose re-render of \<^verbatim>\<open>App\<close> drops the
  item with the error just set.
\<close>

definition reject :: "string \<Rightarrow> app_state \<Rightarrow> app_state" where
  "reject errorMessage s = addNotification errorMessage Error (s\<lparr>assignmentError := errorMessage\<rparr>)"

definition handleSave :: "date_parser \<Rightarrow> booking \<Rightarrow> string \<times> string \<Rightarrow> app_state \<Rightarrow> app_state" where
  "handleSave getTime booking assignment s =
     (let a_driver = fst assignment; a_vehicle = snd assignment;
          s0 = s\<lparr>assignmentError := []\<rparr>
      in if a_driver = [] \<or> a_vehicle = []
         then s0\<lparr>assignmentError := ''Please select both a driver and a vehicle.''\<rparr>
         else if driverIsOffline (drivers s0) a_driver
         then reject (''Driver '' @ a_driver @ '' is currently offline and cannot be assigned.'') s0
         else if driverIsBooked getTime booking a_driver (bookings s0)
         then reject (''Driver '' @ a_driver @ '' has an overlapping booking.'') s0
         else if vehicleIsBooked getTime booking a_vehicle (bookings s0)
         then reject (''Vehicle '' @ a_vehicle @ '' has an overlapping booking.'') s0
         else localHandleAssignDriver (confirmationNumber booking) a_driver a_vehicle s0)"

text \<open>
  A run of the admin list: each step presses Save on the item of the booking at
  position \<open>i\<close> with the selection \<open>a\<close>; a position outside the list has no item.
\<close>

fun saveAll :: "date_parser \<Rightarrow> (nat \<times> string \<times> string) list \<Rightarrow> app_state \<Rightarrow> app_state" where
  "saveAll getTime [] s = s"
| "saveAll getTime ((i, a) # rest) s =
     saveAll getTime rest
       (if i < length (bookings s) then handleSave getTime (bookings s ! i) a s else s)"

section \<open>Cancellation: \<^verbatim>\<open>handleCancelBooking\<close> (lines 458-482)\<close>

definition cancel_fields :: "booking \<Rightarrow> booking" where
  "cancel_fields b =
     b\<lparr> bookingStatus := Cancelled,
        driverName := None,
        driverPhone := None,
        assignedVehicle := None,
        driverStatus := Some TripOffline \<rparr>"

definition handleCancelBooking :: "string \<Rightarrow> app_state \<Rightarrow> app_state" where
  "handleCancelBooking confirmationNumber' s =
     addNotification (''Booking #'' @ slice_last4 confirmationNumber' @ '' has been cancelled.'') Info
       (s\<lparr> bookings :=
              map (\<lambda>b. if confirmationNumber b = confirmationNumber' then cancel_fields b else b)
                  (bookings s),
            guestBookings :=
              map (\<lambda>b. if confirmationNumber b = confirmationNumber'
                        then b\<lparr>bookingStatus := Cancelled\<rparr> else b)
                  (guestBookings s),
            selectedBooking :=
              (if map_option confirmationNumber (selectedBooking s) = Some confirmationNumber'
               then map_option (\<lambda>prev. prev\<lparr>bookingStatus := Cancelled\<rparr>) (selectedBooking s)
               else selectedBooking s) \<rparr>)"

section \<open>Payment: \<^verbatim>\<open>handlePayment\<close> (lines 501-558)\<close>

text \<open>
  \<^verbatim>\<open>handlePayment\<close> opens the checkout of the payment collaborator, which later
  calls \<^verbatim>\<open>handler\<close> with a payment id or \<^verbatim>\<open>ondismiss\<close>. The model takes the
  presence of \<^verbatim>\<open>window.Razorpay\<close> and the outcome of the checkout as arguments
  and runs the callback on the same state. \<^verbatim>\<open>updatePaymentStatus\<close> is the closure
  of \<^verbatim>\<open>handler\<close>; it tests no field of the booking it updates.
\<close>

datatype checkout = Succeeded "string option" | Dismissed

definition updatePaymentStatus :: "string option \<Rightarrow> booking \<Rightarrow> booking" where
  "updatePaymentStatus paymentId' b = b\<lparr> paymentStatus := Paid, paymentId := paymentId' \<rparr>"

definition handler :: "booking \<Rightarrow> string option \<Rightarrow> app_state \<Rightarrow> app_state" where
  "handler booking paymentId' s =
     (let s1 = addNotification ''Payment Successful! Thank you.'' Success s;
          c = confirmationNumber booking
      in s1\<lparr> bookings :=
                map (\<lambda>b. if confirmationNumber b = c then updatePaymentStatus paymentId' b else b)
                    (bookings s1),
              lastBooking :=
                (if map_option confirmationNumber (lastBooking s1) = Some c
                 then map_option (updatePaymentStatus paymentId') (lastBooking s1)
                 else lastBooking s1),
              selectedBooking :=
                (if map_option confirmationNumber (selectedBooking s1) = Some c
                 then map_option (updatePaymentStatus paymentId') (selectedBooking s1)
                 else selectedBooking s1),
              guestBookings :=
                map (\<lambda>b. if confirmationNumber b = c then updatePaymentStatus paymentId' b else b)
                    (guestBookings s1) \<rparr>)"

definition handlePayment :: "bool \<Rightarrow> checkout \<Rightarrow> booking \<Rightarrow> app_state \<Rightarrow> app_state" where
  "handlePayment window_Razorpay outcome booking s =
     (if \<not> window_Razorpay
      then addNotification ''Payment gateway is not available. Please try again later.'' Error s
      else if razorpayKey s = []
      then addNotification ''Payment gateway is not configured. Please contact support.'' Error s
      else (case outcome of
              Succeeded paymentId' \<Rightarrow> handler booking paymentId' s
            | Dismissed \<Rightarrow> addNotification ''Payment was cancelled.'' Info s))"

text \<open>
  The pay button of the confirmation screen (line 854) and of the tracking view
  (line 2194) is rendered only for a displayed booking that is pending.
\<close>

definition payButton_confirmation :: "booking \<Rightarrow> bool" where
  "payButton_confirmation lastBooking' = (paymentStatus lastBooking' = Pending)"

definition payButton_tracking :: "booking \<Rightarrow> bool" where
  "payButton_tracking selectedBooking' =
     (paymentStatus selectedBooking' = Pending \<and> bookingStatus selectedBooking' \<noteq> Cancelled)"

section \<open>The initial registries (lines 59-85)\<close>

definition INITIAL_VEHICLE_TYPES :: "(string \<times> vehicleTypeDetails) list" where
  "INITIAL_VEHICLE_TYPES =
     [(''Standard Sedan'',
        \<lparr> capacity = Fin 4,
          vehicles =
            [\<lparr> plate = ''MP20TA7001'', model = ''Tata Tigor XM EV'' \<rparr>,
             \<lparr> plate = ''MP20TA7002'', model = ''Tata Tigor XM EV'' \<rparr>,
             \<lparr> plate = ''MP20TA7003'', model = ''Tata Tigor XM EV'' \<rparr>,
             \<lparr> plate = ''MP20ZL9504'', model = ''Tata Tigor XM EV'' \<rparr>,
             \<lparr> plate = ''MP20ZL9505'', model = ''Tata Tigor XM EV'' \<rparr>] \<rparr>),
      (''SUV'',
        \<lparr> capacity = Fin 6,
          vehicles = [\<lparr> plate = ''MP20TA1969'', model = ''Toyota Innova'' \<rparr>] \<rparr>)]"

text \<open>
  \<^verbatim>\<open>defaultAvatarSvg\<close> is a data URL; the registries take it as an argument.
\<close>

definition INITIAL_DRIVERS :: "string \<Rightarrow> driver list" where
  "INITIAL_DRIVERS defaultAvatarSvg =
     [\<lparr> name = ''Ravi Kumar'', phone = ''9876543210'', username = ''ravi'',
        password = Some ''password123'', status = Online, position = None,
        avatar = Some defaultAvatarSvg \<rparr>,
      \<lparr> name = ''Sunita Sharma'', phone = ''8765432109'', username = ''sunita'',
        password = Some ''password123'', status = Online, position = None,
        avatar = Some defaultAvatarSvg \<rparr>,
      \<lparr> name = ''Amit Singh'', phone = ''7654321098'', username = ''amit'',
        password = Some ''password123'', status = Online, position = None,
        avatar = Some defaultAvatarSvg \<rparr>,
      \<lparr> name = ''Priya Patel'', phone = ''6543210987'', username = ''priya'',
        password = Some ''password123'', status = Online, position = None,
        avatar = Some defaultAvatarSvg \<rparr>]"

text \<open>The state of \<^verbatim>\<open>App\<close> at its first render (lines 92-95).\<close>

definition initial_state :: "string \<Rightarrow> app_state" where
  "initial_state defaultAvatarSvg =
     \<lparr> bookings = [], drivers = INITIAL_DRIVERS defaultAvatarSvg,
       vehicleTypes = INITIAL_VEHICLE_TYPES,
       notifications = [], isEditingAssignment = None, lastBooking = None,
       guestBookings = [], selectedBooking = None, justAssigned = None,
       assignmentError = [], razorpayKey = [] \<rparr>"

section \<open>The fare of the specification\<close>

text \<open>
  The fare as the specification words it, in exact arithmetic: the base by
  substring match on the trimmed, lower-cased location, the factor 1.5 for the
  SUV, the tax factor 1.18, rounded to the nearest integer (\<open>round\<close> sends a
  half upwards, as \<^verbatim>\<open>Math.round\<close> does).
\<close>

definition spec_base :: "string \<Rightarrow> rat" where
  "spec_base location_text =
     (let n = trim (toLowerCase location_text)
      in if sublist ''airport'' n then 500
         else if sublist ''jabalpur railway station'' n
               \<or> sublist ''madan mahal railway station'' n
               \<or> sublist ''jabalpur station'' n
               \<or> sublist ''madan mahal station'' n
         then 250
         else 500)"

definition spec_fare :: "string \<Rightarrow> string \<Rightarrow> int" where
  "spec_fare location_text vehicle_type =
     round (spec_base location_text
              * (if vehicle_type = ''SUV'' then 15 / 10 else 1) * (118 / 100))"

section \<open>Predicates of the specification\<close>

text \<open>
  Two bookings share a resource when they name the same driver or when their
  assigned vehicles have the same plate. They are double-booked when, moreover,
  neither is cancelled and the overlap detector reports their windows as
  overlapping.
\<close>

definition shares_resource :: "booking \<Rightarrow> booking \<Rightarrow> bool" where
  "shares_resource a b =
     ((driverName a \<noteq> None \<and> driverName a = driverName b)
      \<or> (assignedVehicle a \<noteq> None
          \<and> map_option plate (assignedVehicle a) = map_option plate (assignedVehicle b)))"

definition double_booked :: "date_parser \<Rightarrow> booking \<Rightarrow> booking \<Rightarrow> bool" where
  "double_booked getTime a b =
     (bookingStatus a \<noteq> Cancelled \<and> bookingStatus b \<noteq> Cancelled
      \<and> shares_resource a b \<and> isTimeOverlapping getTime a b)"

text \<open>A store has no assignments when no booking names a driver or a vehicle.\<close>

definition unassigned :: "booking \<Rightarrow> bool" where
  "unassigned b = (driverName b = None \<and> assignedVehicle b = None)"

text \<open>
  The rejection paths of an assignment: a missing driver or vehicle selection,
  an offline driver, a driver time conflict, a vehicle time conflict.
\<close>

definition rejection_path :: "date_parser \<Rightarrow> booking \<Rightarrow> string \<times> string \<Rightarrow> app_state \<Rightarrow> bool" where
  "rejection_path getTime booking assignment s =
     (fst assignment = [] \<or> snd assignment = []
      \<or> driverIsOffline (drivers s) (fst assignment)
      \<or> driverIsBooked getTime booking (fst assignment) (bookings s)
      \<or> vehicleIsBooked getTime booking (snd assignment) (bookings s))"

text \<open>
  The invariant of the assignment: bookings with different confirmation numbers
  are never double-booked.
\<close>

definition conflict_free :: "date_parser \<Rightarrow> booking list \<Rightarrow> bool" where
  "conflict_free getTime bs =
     list_all (\<lambda>a. list_all (\<lambda>b. confirmationNumber a = confirmationNumber b
                                   \<or> \<not> double_booked getTime a b) bs) bs"

section \<open>Example data\<close>

text \<open>
  A date parser on four strings (the time values are those of UTC), two guests'
  requests, and stores built from the initial registries.
\<close>

definition example_getTime :: date_parser where
  "example_getTime =
     map_of [(''2024-06-01T10:00'', 1717236000000),
             (''2024-06-01T10:30'', 1717237800000),
             (''2024-06-01T11:30'', 1717241400000),
             (''2024-06-01T14:00'', 1717250400000)]"

text \<open>The number-to-string conversion on the integers from 0 to 15, in a table.\<close>

definition example_toString :: "number \<Rightarrow> string" where
  "example_toString n =
     (case map_of
             [(Fin 0, ''0''), (Fin 1, ''1''), (Fin 2, ''2''), (Fin 3, ''3''),
              (Fin 4, ''4''), (Fin 5, ''5''), (Fin 6, ''6''), (Fin 7, ''7''),
              (Fin 8, ''8''), (Fin 9, ''9''), (Fin 10, ''10''), (Fin 11, ''11''),
              (Fin 12, ''12''), (Fin 13, ''13''), (Fin 14, ''14''), (Fin 15, ''15'')] n of
        None \<Rightarrow> []
      | Some digits \<Rightarrow> digits)"

definition example_booking :: "string \<Rightarrow> string \<Rightarrow> string \<Rightarrow> booking" where
  "example_booking c guest t =
     newBooking
       \<lparr> r_confirmationNumber = c, r_confirmationMessage = ''Your cab is confirmed.'',
         r_estimatedTripDuration = ''approx. 25 minutes'',
         r_estimatedArrivalTime = ''in 10 minutes'' \<rparr>
       \<lparr> f_guestName = guest, f_guestPhone = ''9000000001'',
         f_location = ''Jabalpur Airport'', f_date = ''2024-06-01'', f_time = t,
         f_serviceType = ''pickup'', f_selectedVehicleType = ''Standard Sedan'' \<rparr>"

definition example_state :: "booking list \<Rightarrow> app_state" where
  "example_state bs = (initial_state ''avatar'')\<lparr> bookings := bs \<rparr>"

text \<open>
  Two overlapping requests with two confirmation numbers, and the run that
  assigns the first driver to the first, tries him on the second and then
  assigns another driver and vehicle to the second.
\<close>

definition two_bookings :: app_state where
  "two_bookings =
     example_state [example_booking ''SE1001'' ''Asha'' ''10:00'',
                    example_booking ''SE1002'' ''Bharat'' ''10:30'']"

definition two_bookings_run :: "(nat \<times> string \<times> string) list" where
  "two_bookings_run =
     [(0, ''Ravi Kumar'', ''MP20TA7001''),
      (1, ''Ravi Kumar'', ''MP20TA7002''),
      (1, ''Sunita Sharma'', ''MP20TA7002'')]"

text \<open>The store after the first step of the run.\<close>

definition first_assigned :: app_state where
  "first_assigned = saveAll example_getTime (take 1 two_bookings_run) two_bookings"

text \<open>
  The same two requests when the text-generation service answers both with the
  confirmation number SE1001, and the store after Save on the first item.
\<close>

definition duplicate_store :: app_state where
  "duplicate_store =
     example_state [example_booking ''SE1001'' ''Asha'' ''10:00'',
                    example_booking ''SE1001'' ''Bharat'' ''10:30'']"

definition duplicate_store_after :: app_state where
  "duplicate_store_after =
     saveAll example_getTime [(0, ''Ravi Kumar'', ''MP20TA7001'')] duplicate_store"

text \<open>
  The first driver has gone offline (\<^verbatim>\<open>handleToggleOnlineStatus\<close>, lines 1821-1824).
\<close>

definition ravi_offline :: app_state where
  "ravi_offline =
     two_bookings
       \<lparr> drivers :=
           map (\<lambda>d. if username d = ''ravi'' then d\<lparr> status := Offline, position := None \<rparr> else d)
               (drivers two_bookings) \<rparr>"

text \<open>
  A second driver named Ravi Kumar has been added (\<^verbatim>\<open>handleAddDriver\<close>, lines
  1095-1115, compares user names only) and has gone offline.
\<close>

definition namesakes :: app_state where
  "namesakes =
     two_bookings
       \<lparr> drivers :=
           drivers two_bookings
             @ [\<lparr> name = ''Ravi Kumar'', phone = ''9123456780'', username = ''ravi2'',
                   password = Some ''password456'', status = Offline, position = None,
                   avatar = Some ''avatar'' \<rparr>] \<rparr>"

text \<open>
  Save on the first item with a driver name that no driver record carries, and
  with a plate that no vehicle carries.
\<close>

definition unknown_driver_after :: app_state where
  "unknown_driver_after =
     handleSave example_getTime (example_booking ''SE1001'' ''Asha'' ''10:00'')
       (''Mohan Das'', ''MP20TA7001'') two_bookings"

definition unknown_vehicle_after :: app_state where
  "unknown_vehicle_after =
     handleSave example_getTime (example_booking ''SE1001'' ''Asha'' ''10:00'')
       (''Ravi Kumar'', ''MP20XX0000'') two_bookings"

text \<open>A store whose only booking is paid, with a configured payment key.\<close>

definition paid_store :: app_state where
  "paid_store =
     (example_state
        [(example_booking ''SE1001'' ''Asha'' ''10:00'')
           \<lparr> paymentStatus := Paid, paymentId := Some ''pay_A'' \<rparr>])
       \<lparr> razorpayKey := ''rzp_key'' \<rparr>"

section \<open>Properties of the overlap detector\<close>

lemma isTimeOverlapping_sym:
  "isTimeOverlapping getTime a b = isTimeOverlapping getTime b a"
  by (auto simp: isTimeOverlapping_def Let_def split: option.splits)

lemma isTimeOverlapping_windows:
  assumes "getTime (date a @ ''T'' @ time a) = Some sa"
    and "getTime (date b @ ''T'' @ time b) = Some sb"
  shows "isTimeOverlapping getTime a b
           \<longleftrightarrow> {sa ..< sa + 5400000} \<inter> {sb ..< sb + 5400000} \<noteq> {}"
proof
  assume "isTimeOverlapping getTime a b"
  with assms have lt: "sa < sb + 5400000" "sb < sa + 5400000"
    by (simp_all add: isTimeOverlapping_def DURATION_MS_def)
  then have "max sa sb \<in> {sa ..< sa + 5400000} \<inter> {sb ..< sb + 5400000}"
    by auto
  then show "{sa ..< sa + 5400000} \<inter> {sb ..< sb + 5400000} \<noteq> {}"
    by blast
next
  assume "{sa ..< sa + 5400000} \<inter> {sb ..< sb + 5400000} \<noteq> {}"
  then obtain t where "t \<in> {sa ..< sa + 5400000} \<inter> {sb ..< sb + 5400000}"
    by blast
  then have "sa \<le> t" "t < sa + 5400000" "sb \<le> t" "t < sb + 5400000"
    by simp_all
  then have "sa < sb + 5400000" "sb < sa + 5400000"
    by linarith+
  with assms show "isTimeOverlapping getTime a b"
    by (simp add: isTimeOverlapping_def DURATION_MS_def)
qed

lemma isTimeOverlapping_touching:
  assumes "getTime (date a @ ''T'' @ time a) = Some sa"
    and "getTime (date b @ ''T'' @ time b) = Some (sa + 5400000)"
  shows "\<not> isTimeOverlapping getTime a b"
  using assms by (simp add: isTimeOverlapping_def DURATION_MS_def)

text \<open>
  On the example data: 10:00 and 10:30 overlap, 10:00 and 11:30 touch and do not
  overlap, and a time that does not parse overlaps nothing.
\<close>

lemma isTimeOverlapping_examples:
  "isTimeOverlapping example_getTime
     (example_booking c1 g1 ''10:00'') (example_booking c2 g2 ''10:30'')"
  "\<not> isTimeOverlapping example_getTime
     (example_booking c1 g1 ''10:00'') (example_booking c2 g2 ''11:30'')"
  "\<not> isTimeOverlapping example_getTime
     (example_booking c1 g1 ''10:00'') (example_booking c2 g2 ''25:00'')"
  by (simp_all add: isTimeOverlapping_def example_getTime_def example_booking_def
        newBooking_def DURATION_MS_def)

text \<open>
  Claim C4. The detector answers true exactly when both date/time strings parse
  and the two starts \<open>sa\<close>, \<open>sb\<close> satisfy \<open>sa < sb + D\<close> and \<open>sa + D > sb\<close> with
  \<open>D\<close> = 90 minutes = 5400000 ms (half-open windows: a start equal to the other
  end does not conflict). Hence it answers false, and raises nothing, as soon as
  one of the two strings fails to parse.
\<close>

theorem isTimeOverlapping_iff:
  "isTimeOverlapping getTime a b \<longleftrightarrow>
     (\<exists>sa sb. getTime (date a @ ''T'' @ time a) = Some sa
        \<and> getTime (date b @ ''T'' @ time b) = Some sb
        \<and> sa < (sb + 90 * 60 * 1000) \<and> (sa + 90 * 60 * 1000) > sb)"
  by (auto simp: isTimeOverlapping_def DURATION_MS_def Let_def split: option.splits)


section \<open>Properties of the double arithmetic\<close>

lemma GST_RATE_value: "GST_RATE = Fin (3242591731706757 / 18014398509481984)"
  unfolding GST_RATE_def by code_simp

lemma one_plus_GST_RATE:
  "num_add (Fin 1) GST_RATE = Fin (5314247560297185 / 4503599627370496)"
  unfolding GST_RATE_value by code_simp

lemma SUV_MULTIPLIER_value: "SUV_MULTIPLIER = Fin (3 / 2)"
  unfolding SUV_MULTIPLIER_def by code_simp

lemma final_airport:
  "math_round (num_mul (Fin 500) (num_add (Fin 1) GST_RATE)) = Fin 590"
  unfolding one_plus_GST_RATE by code_simp

lemma final_airport_suv:
  "math_round (num_mul (num_mul (Fin 500) SUV_MULTIPLIER) (num_add (Fin 1) GST_RATE)) = Fin 885"
  unfolding one_plus_GST_RATE SUV_MULTIPLIER_value by code_simp

lemma final_station:
  "math_round (num_mul (Fin 250) (num_add (Fin 1) GST_RATE)) = Fin 295"
  unfolding one_plus_GST_RATE by code_simp

lemma final_station_suv:
  "math_round (num_mul (num_mul (Fin 250) SUV_MULTIPLIER) (num_add (Fin 1) GST_RATE)) = Fin 443"
  unfolding one_plus_GST_RATE SUV_MULTIPLIER_value by code_simp

lemma threshold_095: "fl (95 / 100) = Fin (4278419646001971 / 4503599627370496)"
  by code_simp

text \<open>
  The rounding error of \<open>fl\<close>: \<open>ilog2\<close> does not exceed the binary exponent, and a
  positive value whose exponent is at most \<open>e\<close> is rounded with an error of at
  most \<open>2^(e - 53)\<close>, half a unit in the last place.
\<close>

lemma pow2_powi: "pow2 e = 2 powi e"
  by (auto simp: pow2_def power_int_def inverse_eq_divide power_one_over)

lemma pow2_pos: "0 < pow2 e"
  by (simp add: pow2_powi)

lemma pow2_mono: "a \<le> b \<Longrightarrow> pow2 a \<le> pow2 b"
  by (simp add: pow2_powi power_int_increasing)

lemma pow2_less_exp:
  assumes "pow2 a \<le> x" and "x < pow2 b"
  shows "a < b"
proof (rule ccontr)
  assume "\<not> a < b"
  then have "pow2 b \<le> pow2 a"
    by (simp add: pow2_mono)
  with assms show False
    by simp
qed

lemma ilog2_lower:
  assumes "0 < x"
  shows "pow2 (ilog2 x) \<le> x"
proof -
  obtain a b where q: "quotient_of x = (a, b)"
    by (cases "quotient_of x")
  then have b: "0 < b" and x: "x = of_int a / of_int b"
    by (simp_all add: quotient_of_denom_pos quotient_of_div)
  with assms have a: "0 < a"
    by (simp add: zero_less_divide_iff)
  let ?d = "bitlen a - bitlen b"
  have la: "1 \<le> bitlen a" and lb: "0 \<le> bitlen b"
    using a by (auto simp: bitlen_alt_def)
  from bitlen_bounds [OF a] have "(2::int) ^ nat (bitlen a - 1) \<le> a"
    by simp
  then have "(of_int ((2::int) ^ nat (bitlen a - 1)) :: rat) \<le> of_int a"
    by (simp only: of_int_le_iff)
  then have al: "(2::rat) powi (bitlen a - 1) \<le> of_int a"
    using la by (simp add: power_int_def)
  from bitlen_bounds [OF b] have "b < (2::int) ^ nat (bitlen b)"
    by simp
  then have "(of_int b :: rat) < of_int ((2::int) ^ nat (bitlen b))"
    by (simp only: of_int_less_iff)
  then have bu: "(of_int b :: rat) < 2 powi (bitlen b)"
    using lb by (simp add: power_int_def)
  have "?d - 1 = (bitlen a - 1) - bitlen b"
    by simp
  then have "(2::rat) powi (?d - 1) = 2 powi (bitlen a - 1) / 2 powi (bitlen b)"
    by (simp only: power_int_diff [of "2::rat", simplified])
  also have "\<dots> \<le> of_int a / 2 powi (bitlen b)"
    using al by (simp add: divide_right_mono)
  also have "\<dots> \<le> of_int a / of_int b"
    using bu a b by (simp add: frac_le)
  finally have low: "pow2 (?d - 1) \<le> x"
    by (simp add: pow2_powi x)
  show ?thesis
    using low q by (simp add: ilog2_def Let_def)
qed

lemma ilog2_less:
  assumes "0 < x" and "x < pow2 k"
  shows "ilog2 x < k"
  using pow2_less_exp [OF ilog2_lower [OF assms(1)] assms(2)] .

lemma round_half_even_error: "\<bar>of_int (round_half_even z) - z\<bar> \<le> 1 / 2"
proof -
  have "of_int \<lfloor>z\<rfloor> \<le> z" and "z < of_int \<lfloor>z\<rfloor> + 1"
    by linarith+
  then show ?thesis
    by (auto simp: round_half_even_def Let_def)
qed

lemma fl_pos_error:
  assumes x: "0 < x" and e: "ilog2 x \<le> e" and n: "- 1022 \<le> e"
  shows "\<bar>fl_pos x - x\<bar> \<le> pow2 (e - 53)"
proof -
  define q where "q = max (ilog2 x) (- 1022) - 52"
  have P: "0 < pow2 q"
    by (rule pow2_pos)
  have "\<bar>of_int (round_half_even (x / pow2 q)) - x / pow2 q\<bar> * pow2 q \<le> 1 / 2 * pow2 q"
    using round_half_even_error [of "x / pow2 q"] P by (simp add: mult_right_mono)
  moreover have "\<bar>of_int (round_half_even (x / pow2 q)) - x / pow2 q\<bar> * pow2 q
      = \<bar>fl_pos x - x\<bar>"
  proof -
    have "\<bar>of_int (round_half_even (x / pow2 q)) - x / pow2 q\<bar> * pow2 q
        = \<bar>(of_int (round_half_even (x / pow2 q)) - x / pow2 q) * pow2 q\<bar>"
      using P by (simp add: abs_mult)
    also have "(of_int (round_half_even (x / pow2 q)) - x / pow2 q) * pow2 q = fl_pos x - x"
      using P by (simp add: fl_pos_def q_def Let_def algebra_simps)
    finally show ?thesis .
  qed
  moreover have "1 / 2 * pow2 q \<le> pow2 (e - 53)"
  proof -
    from e n have "q \<le> e - 52"
      by (simp add: q_def)
    then have "pow2 q \<le> pow2 (e - 52)"
      by (rule pow2_mono)
    moreover have "pow2 (e - 52) = 2 * pow2 (e - 53)"
      by (simp add: pow2_powi power_int_diff)
    ultimately show ?thesis
      by simp
  qed
  ultimately show ?thesis
    by simp
qed

lemma fl_positive:
  assumes "0 < x" and "ilog2 x < 1023"
  shows "fl x = Fin (fl_pos x)"
  using assms by (simp add: fl_def Let_def)

text \<open>
  For a progress between 0 and the double 0.95, the double product
  \<open>15 * (1 - p)\<close> is finite and lies within \<open>2^-48\<close> of the exact product; so
  \<^verbatim>\<open>Math.round\<close> of it is the exact rounding unless a half-integer is that near.
\<close>

lemma eta_product:
  assumes x0: "0 \<le> x" and xc: "x \<le> 4278419646001971 / 4503599627370496"
  obtains d where "num_mul (Fin 15) (num_sub (Fin 1) (Fin x)) = Fin d"
    and "\<bar>d - 15 * (1 - x)\<bar> \<le> 1 / 2 ^ 48"
proof -
  define z where "z = 1 - x"
  define y where "y = fl_pos z"
  define d where "d = fl_pos (15 * y)"
  have z: "225179981368525 / 4503599627370496 \<le> z" "z \<le> 1"
    using x0 xc by (simp_all add: z_def)
  then have zpos: "0 < z"
    by simp
  have "z < pow2 1"
    using z by (simp add: pow2_def)
  from ilog2_less [OF zpos this] have ez: "ilog2 z \<le> 0"
    by simp
  then have flz: "fl z = Fin y"
    using zpos by (simp add: fl_positive y_def)
  have "\<bar>y - z\<bar> \<le> pow2 (0 - 53)"
    unfolding y_def by (rule fl_pos_error [OF zpos ez]) simp
  then have yz: "\<bar>y - z\<bar> \<le> 1 / 2 ^ 53"
    by (simp add: pow2_def)
  then have "z - 1 / 2 ^ 53 \<le> y" and "y \<le> z + 1 / 2 ^ 53"
    by linarith+
  with z have y: "0 < y" "15 * y < 16"
    by simp_all
  then have ypos: "0 < 15 * y"
    by simp
  have "15 * y < pow2 4"
    using y by (simp add: pow2_def)
  from ilog2_less [OF ypos this] have ey: "ilog2 (15 * y) \<le> 3"
    by simp
  then have fly: "fl (15 * y) = Fin d"
    using ypos by (simp add: fl_positive d_def)
  have "\<bar>d - 15 * y\<bar> \<le> pow2 (3 - 53)"
    unfolding d_def by (rule fl_pos_error [OF ypos ey]) simp
  then have dy: "\<bar>d - 15 * y\<bar> \<le> 1 / 2 ^ 50"
    by (simp add: pow2_def)
  from dy have d1: "d - 15 * y \<le> 1 / 2 ^ 50" and d2: "15 * y - d \<le> 1 / 2 ^ 50"
    by (simp_all only: abs_le_iff minus_diff_eq)
  from yz have y1: "y - z \<le> 1 / 2 ^ 53" and y2: "z - y \<le> 1 / 2 ^ 53"
    by (simp_all only: abs_le_iff minus_diff_eq)
  have s: "(1 / 2 ^ 50 + 15 * (1 / 2 ^ 53) :: rat) \<le> 1 / 2 ^ 48"
    by simp
  from d1 y1 have "d - 15 * z \<le> 1 / 2 ^ 50 + 15 * (1 / 2 ^ 53)"
    by linarith
  moreover from d2 y2 have "15 * z - d \<le> 1 / 2 ^ 50 + 15 * (1 / 2 ^ 53)"
    by linarith
  ultimately have "d - 15 * z \<le> 1 / 2 ^ 48" and "- (d - 15 * z) \<le> 1 / 2 ^ 48"
    using s by linarith+
  then have "\<bar>d - 15 * z\<bar> \<le> 1 / 2 ^ 48"
    by (rule abs_leI)
  then have err: "\<bar>d - 15 * (1 - x)\<bar> \<le> 1 / 2 ^ 48"
    by (simp only: z_def)
  have "num_mul (Fin 15) (num_sub (Fin 1) (Fin x)) = Fin d"
    using flz fly by (simp add: num_sub_def z_def)
  then show thesis
    using err by (rule that)
qed

lemma round_stable:
  fixes d r t :: rat
  assumes "\<bar>d - r\<bar> \<le> t" and "\<lfloor>r + 1 / 2 - t\<rfloor> = \<lfloor>r + 1 / 2 + t\<rfloor>"
  shows "\<lfloor>d + 1 / 2\<rfloor> = round r"
proof -
  from assms(1) have "r + 1 / 2 - t \<le> d + 1 / 2" and "d + 1 / 2 \<le> r + 1 / 2 + t"
    by (simp_all add: abs_le_iff)
  then have "\<lfloor>r + 1 / 2 - t\<rfloor> \<le> \<lfloor>d + 1 / 2\<rfloor>" and "\<lfloor>d + 1 / 2\<rfloor> \<le> \<lfloor>r + 1 / 2 + t\<rfloor>"
    by (simp_all add: floor_mono)
  moreover from assms(1) have "0 \<le> t"
    by simp
  then have "\<lfloor>r + 1 / 2 - t\<rfloor> \<le> \<lfloor>r + 1 / 2\<rfloor>" and "\<lfloor>r + 1 / 2\<rfloor> \<le> \<lfloor>r + 1 / 2 + t\<rfloor>"
    by (simp_all add: floor_mono)
  ultimately show ?thesis
    using assms(2) by (simp add: round_def)
qed

lemma eta_exact:
  assumes x0: "0 \<le> x" and xc: "x \<le> 4278419646001971 / 4503599627370496"
    and tie: "\<lfloor>15 * (1 - x) + 1 / 2 - 1 / 2 ^ 48\<rfloor> = \<lfloor>15 * (1 - x) + 1 / 2 + 1 / 2 ^ 48\<rfloor>"
  shows "calculateSimulatedETA toString (Fin x) =
     (if round (15 * (1 - x)) \<le> 1 then ''Less than a minute''
      else ''approx. '' @ toString (Fin (of_int (round (15 * (1 - x))))) @ '' mins'')"
proof -
  from eta_product [OF x0 xc] obtain d
    where d: "num_mul (Fin 15) (num_sub (Fin 1) (Fin x)) = Fin d"
      and err: "\<bar>d - 15 * (1 - x)\<bar> \<le> 1 / 2 ^ 48"
    by blast
  from round_stable [OF err tie] have n: "\<lfloor>d + 1 / 2\<rfloor> = round (15 * (1 - x))" .
  have a: "\<not> num_ge (Fin x) (Fin 1)"
    using xc by (simp add: num_ge_def num_le_def)
  have b: "\<not> num_gt (Fin x) (fl (95 / 100))"
    using xc unfolding threshold_095 by (simp add: num_gt_def)
  show ?thesis
    using a b n
    by (simp add: calculateSimulatedETA_def Let_def d num_le_def
          del: num_mul.simps num_add.simps)
qed

section \<open>Properties of the fare estimator\<close>

lemma str_includes_sublist: "str_includes s t \<longleftrightarrow> sublist t s"
  by (induction s) (simp_all add: sublist_Cons_right)

lemma baseFare_spec_base:
  "baseFare (trim (toLowerCase location_text)) = Fin (spec_base location_text)"
  by (simp add: baseFare_def spec_base_def str_includes_sublist FARE_AIRPORT_def
        FARE_STATION_def FARE_OTHER_ABOVE_5KM_def Let_def)

lemma spec_base_cases: "spec_base location_text = 500 \<or> spec_base location_text = 250"
  by (simp add: spec_base_def Let_def)

lemma round_rat_590: "round (500 * 1 * (118 / 100) :: rat) = 590"
  by code_simp

lemma round_rat_885: "round (500 * (15 / 10) * (118 / 100) :: rat) = 885"
  by code_simp

lemma round_rat_295: "round (250 * 1 * (118 / 100) :: rat) = 295"
  by code_simp

lemma round_rat_443: "round (250 * (15 / 10) * (118 / 100) :: rat) = 443"
  by code_simp

lemma estimateFare_spec_fare:
  "estimateFare location_text vehicle_type = Fin (of_int (spec_fare location_text vehicle_type))"
proof (cases "vehicle_type = ''SUV''")
  case True
  from spec_base_cases [of location_text] show ?thesis
  proof
    assume b: "spec_base location_text = 500"
    have "estimateFare location_text vehicle_type = Fin 885"
      using True b final_airport_suv
      by (simp add: estimateFare_def baseFare_spec_base Let_def
            del: num_mul.simps num_add.simps math_round.simps)
    moreover have "spec_fare location_text vehicle_type = 885"
      using True b round_rat_885 by (simp only: spec_fare_def simp_thms if_True)
    ultimately show ?thesis by simp
  next
    assume b: "spec_base location_text = 250"
    have "estimateFare location_text vehicle_type = Fin 443"
      using True b final_station_suv
      by (simp add: estimateFare_def baseFare_spec_base Let_def
            del: num_mul.simps num_add.simps math_round.simps)
    moreover have "spec_fare location_text vehicle_type = 443"
      using True b round_rat_443 by (simp only: spec_fare_def simp_thms if_True)
    ultimately show ?thesis by simp
  qed
next
  case False
  from spec_base_cases [of location_text] show ?thesis
  proof
    assume b: "spec_base location_text = 500"
    have "estimateFare location_text vehicle_type = Fin 590"
      using False b final_airport
      by (simp add: estimateFare_def baseFare_spec_base Let_def
            del: num_mul.simps num_add.simps math_round.simps)
    moreover have "spec_fare location_text vehicle_type = 590"
      using False b round_rat_590 by (simp only: spec_fare_def simp_thms if_False)
    ultimately show ?thesis by simp
  next
    assume b: "spec_base location_text = 250"
    have "estimateFare location_text vehicle_type = Fin 295"
      using False b final_station
      by (simp add: estimateFare_def baseFare_spec_base Let_def
            del: num_mul.simps num_add.simps math_round.simps)
    moreover have "spec_fare location_text vehicle_type = 295"
      using False b round_rat_295 by (simp only: spec_fare_def simp_thms if_False)
    ultimately show ?thesis by simp
  qed
qed

lemma spec_base_jabalpur_airport: "spec_base ''Jabalpur Airport'' = 500"
proof -
  have "trim (toLowerCase ''Jabalpur Airport'') = ''jabalpur airport''"
    by code_simp
  moreover have "sublist ''airport'' ''jabalpur airport''"
    by code_simp
  ultimately show ?thesis
    by (simp add: spec_base_def Let_def)
qed


text \<open>
  The normalisation on examples: lower-casing of the upper-case letters, and
  trimming and lower-casing of the locations used below.
\<close>

lemma normalised_examples:
  "toLowerCase ''ABCDEFGHIJKLMNOPQRSTUVWXYZ'' = ''abcdefghijklmnopqrstuvwxyz''"
  "trim (toLowerCase ''  Madan Mahal Railway STATION  '') = ''madan mahal railway station''"
  "trim (toLowerCase ''JABALPUR STATION'') = ''jabalpur station''"
  "trim (toLowerCase ''Airport Road, near Jabalpur Station'') = ''airport road, near jabalpur station''"
  "trim (toLowerCase ''Hotel Shawn Elizey'') = ''hotel shawn elizey''"
  by code_simp+

lemma spec_base_examples:
  "spec_base ''JABALPUR STATION'' = 250"
  "spec_base ''  Madan Mahal Railway STATION  '' = 250"
  "spec_base ''Airport Road, near Jabalpur Station'' = 500"
  "spec_base ''Hotel Shawn Elizey'' = 500"
  unfolding spec_base_def Let_def normalised_examples
  by code_simp+

text \<open>
  Claim C5. For every location string (of code units below 256) and every
  vehicle type the fare computed in double arithmetic is the integer
  \<open>round (base * m * 1.18)\<close> of the specification (\<open>spec_fare\<close>: base 500 for a
  location whose trimmed, lower-cased text contains "airport", else 250 for one
  that contains a station phrase, else 500; \<open>m\<close> = 1.5 for the vehicle type SUV
  and 1 otherwise). "Jabalpur Airport" costs 590 with the standard sedan and 885
  with the SUV; an upper-case or padded station name costs 295, and 443 with the
  SUV; "airport" wins over a station phrase; any other location costs as the
  airport does; the vehicle type is compared as it is written. The estimate is
  a function of its two inputs only.
\<close>

theorem estimateFare_correct:
  "estimateFare location_text vehicle_type
     = Fin (of_int (spec_fare location_text vehicle_type))
   \<and> estimateFare ''Jabalpur Airport'' ''Standard Sedan'' = Fin 590
   \<and> estimateFare ''Jabalpur Airport'' ''SUV'' = Fin 885
   \<and> estimateFare ''JABALPUR STATION'' ''Standard Sedan'' = Fin 295
   \<and> estimateFare ''  Madan Mahal Railway STATION  '' ''SUV'' = Fin 443
   \<and> estimateFare ''Airport Road, near Jabalpur Station'' ''Standard Sedan'' = Fin 590
   \<and> estimateFare ''Hotel Shawn Elizey'' ''SUV'' = Fin 885
   \<and> estimateFare ''JABALPUR STATION'' ''suv'' = Fin 295
   \<and> toLowerCase ''ABCDEFGHIJKLMNOPQRSTUVWXYZ'' = ''abcdefghijklmnopqrstuvwxyz''
   \<and> trim (toLowerCase ''  Madan Mahal Railway STATION  '') = ''madan mahal railway station''"
proof -
  have "spec_fare ''Jabalpur Airport'' ''Standard Sedan'' = 590"
    using round_rat_590 spec_base_jabalpur_airport by (simp add: spec_fare_def)
  moreover have "spec_fare ''Jabalpur Airport'' ''SUV'' = 885"
    using round_rat_885 spec_base_jabalpur_airport by (simp add: spec_fare_def)
  moreover have "spec_fare ''JABALPUR STATION'' ''Standard Sedan'' = 295"
    using round_rat_295 spec_base_examples(1) by (simp add: spec_fare_def)
  moreover have "spec_fare ''  Madan Mahal Railway STATION  '' ''SUV'' = 443"
    using round_rat_443 spec_base_examples(2) by (simp add: spec_fare_def)
  moreover have "spec_fare ''Airport Road, near Jabalpur Station'' ''Standard Sedan'' = 590"
    using round_rat_590 spec_base_examples(3) by (simp add: spec_fare_def)
  moreover have "spec_fare ''Hotel Shawn Elizey'' ''SUV'' = 885"
    using round_rat_885 spec_base_examples(4) by (simp add: spec_fare_def)
  moreover have "spec_fare ''JABALPUR STATION'' ''suv'' = 295"
    using round_rat_295 spec_base_examples(1) by (simp add: spec_fare_def)
  ultimately show ?thesis
    by (simp add: estimateFare_spec_fare normalised_examples)
qed

section \<open>Properties of the simulated ETA\<close>

lemma not_ge_one_above_threshold:
  assumes "\<not> num_ge p (Fin 1)" and "num_lt (fl (95 / 100)) p"
  shows "num_lt p (Fin 1)"
  using assms unfolding threshold_095
  by (cases p) (simp_all add: num_ge_def num_le_def)

text \<open>The ETA at some progress values, for every number-to-string conversion.\<close>

lemma eta_values:
  "calculateSimulatedETA toString (Fin 0) = ''approx. '' @ toString (Fin 15) @ '' mins''"
  "calculateSimulatedETA toString (Fin (1 / 2)) = ''approx. '' @ toString (Fin 8) @ '' mins''"
  "calculateSimulatedETA toString (fl (1 / 10)) = ''approx. '' @ toString (Fin 14) @ '' mins''"
  "calculateSimulatedETA toString (fl (9 / 10)) = ''Less than a minute''"
  "calculateSimulatedETA toString (fl (95 / 100)) = ''Less than a minute''"
  "calculateSimulatedETA toString (fl (96 / 100)) = ''Arriving now''"
  "calculateSimulatedETA toString (Fin 1) = ''Arrived''"
  "calculateSimulatedETA toString (Fin (- 1)) = ''approx. '' @ toString (Fin 30) @ '' mins''"
  "calculateSimulatedETA toString PosInf = ''Arrived''"
  "calculateSimulatedETA toString NegInf = ''approx. '' @ toString PosInf @ '' mins''"
  "calculateSimulatedETA toString NaN = ''approx. '' @ toString NaN @ '' mins''"
  by code_simp+

lemma example_toString_values:
  "example_toString (Fin 11) = ''11''" "example_toString (Fin 13) = ''13''"
  "example_toString (Fin 14) = ''14''"
  by (simp_all add: example_toString_def)

lemma tenth: "fl (1 / 10) = Fin (3602879701896397 / 36028797018963968)"
  by code_simp

lemma tenth_exact: "round (15 * (1 - 3602879701896397 / 36028797018963968) :: rat) = 13"
  by code_simp

text \<open>
  Claim C9, refuted as stated. The progress 0.1 is the double
  3602879701896397 / 2^55, a little above one tenth. For it
  \<open>15 * (1 - p)\<close> is a little below 13.5 and rounds to 13, but the ETA is
  "approx. 14 mins": the double difference \<open>1 - p\<close> is rounded to 0.9 and the
  double product to 13.5. Read on the decimal fractions themselves, the claim
  fails at 0.9: \<open>15 * (1 - 9/10)\<close> is 1.5 and rounds to 2, but the ETA is
  "Less than a minute".
\<close>

theorem eta_exact_rounding_fails:
  "fl (1 / 10) = Fin (3602879701896397 / 36028797018963968)
   \<and> calculateSimulatedETA example_toString (Fin (3602879701896397 / 36028797018963968))
       = ''approx. 14 mins''
   \<and> round (15 * (1 - 3602879701896397 / 36028797018963968) :: rat) = 13
   \<and> example_toString (Fin 13) = ''13''
   \<and> calculateSimulatedETA example_toString (fl (9 / 10)) = ''Less than a minute''
   \<and> round (15 * (1 - 9 / 10) :: rat) = 2"
proof -
  have "round (15 * (1 - 9 / 10) :: rat) = 2"
    by code_simp
  then show ?thesis
    using eta_values(3) [of example_toString] eta_values(4) [of example_toString]
      tenth_exact
    by (simp add: tenth example_toString_values)
qed

text \<open>
  Claim C9, as amended. For every progress value \<open>p\<close> the ETA string is
  "Arrived" when \<open>p \<ge> 1\<close>; "Arriving now" when \<open>0.95 < p < 1\<close>, 0.95 being the
  double 4278419646001971 / 2^52; otherwise, with \<open>N = Math.round (15 * (1 - p))\<close>
  computed in double arithmetic (the difference and the product are each
  rounded to the nearest double), it is "Less than a minute" when \<open>N \<le> 1\<close> and
  "approx. N mins" when not; \<^verbatim>\<open>NaN\<close> fails every comparison and so falls to the
  last case. For \<open>0 \<le> p \<le> 0.95\<close> this \<open>N\<close> is the exact \<open>round (15 * (1 - p))\<close>
  whenever no half-integer lies within \<open>2^-48\<close> of \<open>15 * (1 - p)\<close>.
\<close>

theorem calculateSimulatedETA_cases:
  "calculateSimulatedETA toString p =
     (if num_ge p (Fin 1) then ''Arrived''
      else if num_lt (fl (95 / 100)) p \<and> num_lt p (Fin 1) then ''Arriving now''
      else if num_le (math_round (num_mul (Fin 15) (num_sub (Fin 1) p))) (Fin 1)
      then ''Less than a minute''
      else ''approx. '' @ toString (math_round (num_mul (Fin 15) (num_sub (Fin 1) p)))
             @ '' mins'')
   \<and> fl (95 / 100) = Fin (4278419646001971 / 4503599627370496)
   \<and> (1 \<le> x \<longrightarrow> calculateSimulatedETA toString (Fin x) = ''Arrived'')
   \<and> (4278419646001971 / 4503599627370496 < x \<and> x < 1 \<longrightarrow>
        calculateSimulatedETA toString (Fin x) = ''Arriving now'')
   \<and> (0 \<le> x \<and> x \<le> 4278419646001971 / 4503599627370496
        \<and> \<lfloor>15 * (1 - x) + 1 / 2 - 1 / 2 ^ 48\<rfloor> = \<lfloor>15 * (1 - x) + 1 / 2 + 1 / 2 ^ 48\<rfloor> \<longrightarrow>
        calculateSimulatedETA toString (Fin x) =
          (if round (15 * (1 - x)) \<le> 1 then ''Less than a minute''
           else ''approx. '' @ toString (Fin (of_int (round (15 * (1 - x))))) @ '' mins''))
   \<and> calculateSimulatedETA toString (Fin 0) = ''approx. '' @ toString (Fin 15) @ '' mins''
   \<and> calculateSimulatedETA toString (Fin (1 / 2)) = ''approx. '' @ toString (Fin 8) @ '' mins''
   \<and> calculateSimulatedETA toString (fl (1 / 10)) = ''approx. '' @ toString (Fin 14) @ '' mins''
   \<and> calculateSimulatedETA toString (fl (9 / 10)) = ''Less than a minute''
   \<and> calculateSimulatedETA toString (fl (95 / 100)) = ''Less than a minute''
   \<and> calculateSimulatedETA toString (fl (96 / 100)) = ''Arriving now''
   \<and> calculateSimulatedETA toString (Fin 1) = ''Arrived''
   \<and> calculateSimulatedETA toString (Fin (- 1)) = ''approx. '' @ toString (Fin 30) @ '' mins''
   \<and> calculateSimulatedETA toString PosInf = ''Arrived''
   \<and> calculateSimulatedETA toString NegInf = ''approx. '' @ toString PosInf @ '' mins''
   \<and> calculateSimulatedETA toString NaN = ''approx. '' @ toString NaN @ '' mins''"
proof -
  have A: "calculateSimulatedETA toString p =
     (if num_ge p (Fin 1) then ''Arrived''
      else if num_lt (fl (95 / 100)) p \<and> num_lt p (Fin 1) then ''Arriving now''
      else if num_le (math_round (num_mul (Fin 15) (num_sub (Fin 1) p))) (Fin 1)
      then ''Less than a minute''
      else ''approx. '' @ toString (math_round (num_mul (Fin 15) (num_sub (Fin 1) p)))
             @ '' mins'')"
    using not_ge_one_above_threshold [of p]
    by (auto simp add: calculateSimulatedETA_def num_gt_def Let_def
          simp del: num_mul.simps num_add.simps math_round.simps)
  have B: "1 \<le> x \<longrightarrow> calculateSimulatedETA toString (Fin x) = ''Arrived''"
    by (simp add: calculateSimulatedETA_def num_ge_def num_le_def)
  have C: "4278419646001971 / 4503599627370496 < x \<and> x < 1 \<longrightarrow>
        calculateSimulatedETA toString (Fin x) = ''Arriving now''"
    unfolding calculateSimulatedETA_def threshold_095
    by (simp add: num_ge_def num_le_def num_gt_def)
  have D: "0 \<le> x \<and> x \<le> 4278419646001971 / 4503599627370496
        \<and> \<lfloor>15 * (1 - x) + 1 / 2 - 1 / 2 ^ 48\<rfloor> = \<lfloor>15 * (1 - x) + 1 / 2 + 1 / 2 ^ 48\<rfloor> \<longrightarrow>
        calculateSimulatedETA toString (Fin x) =
          (if round (15 * (1 - x)) \<le> 1 then ''Less than a minute''
           else ''approx. '' @ toString (Fin (of_int (round (15 * (1 - x))))) @ '' mins'')"
    using eta_exact [of x toString] by blast
  show ?thesis
    by (intro conjI A B C D threshold_095 eta_values)
qed

theorem calculateSimulatedETA_cases_witness:
  "(0::rat) \<le> 1 / 4 \<and> (1 / 4 :: rat) \<le> 4278419646001971 / 4503599627370496
   \<and> \<lfloor>15 * (1 - 1 / 4) + 1 / 2 - 1 / 2 ^ 48 :: rat\<rfloor> = \<lfloor>15 * (1 - 1 / 4) + 1 / 2 + 1 / 2 ^ 48 :: rat\<rfloor>
   \<and> calculateSimulatedETA example_toString (Fin (1 / 4)) = ''approx. 11 mins''
   \<and> (1::rat) \<le> 2
   \<and> calculateSimulatedETA example_toString (Fin 2) = ''Arrived''
   \<and> (4278419646001971 / 4503599627370496 :: rat) < 24 / 25 \<and> (24 / 25 :: rat) < 1
   \<and> calculateSimulatedETA example_toString (Fin (24 / 25)) = ''Arriving now''"
proof -
  have t: "\<lfloor>15 * (1 - 1 / 4) + 1 / 2 - 1 / 2 ^ 48 :: rat\<rfloor>
      = \<lfloor>15 * (1 - 1 / 4) + 1 / 2 + 1 / 2 ^ 48 :: rat\<rfloor>"
    by code_simp
  have r: "round (15 * (1 - 1 / 4) :: rat) = 11"
    by code_simp
  show ?thesis
    using t r
      calculateSimulatedETA_cases [of example_toString "Fin 0" "1 / 4"]
      calculateSimulatedETA_cases [of example_toString "Fin 0" 2]
      calculateSimulatedETA_cases [of example_toString "Fin 0" "24 / 25"]
    by (simp add: example_toString_values)
qed


section \<open>Properties of the assignment\<close>


lemma assign_vehicle_plate:
  "assign_vehicle vts v = Some w \<Longrightarrow> plate w = v"
  by (auto simp: assign_vehicle_def find_Some_iff split: option.splits if_splits)

lemma date_time_assign_fields [simp]:
  "date (assign_fields ds vts d v b) = date b"
  "time (assign_fields ds vts d v b) = time b"
  by (simp_all add: assign_fields_def)

lemma isTimeOverlapping_assign_fields:
  "isTimeOverlapping getTime (assign_fields ds vts d v a) b = isTimeOverlapping getTime a b"
  "isTimeOverlapping getTime a (assign_fields ds vts d v b) = isTimeOverlapping getTime a b"
  unfolding isTimeOverlapping_def date_time_assign_fields by (rule refl)+

lemma confirmationNumber_assign_fields [simp]:
  "confirmationNumber (assign_fields ds vts d v b) = confirmationNumber b"
  by (simp add: assign_fields_def)

lemma bookings_handleSave:
  "bookings (handleSave getTime booking (d, v) s) =
     (if rejection_path getTime booking (d, v) s then bookings s
      else map (\<lambda>b. if confirmationNumber b = confirmationNumber booking
                     then assign_fields (drivers s) (vehicleTypes s) d v b else b) (bookings s))"
  by (simp add: handleSave_def rejection_path_def reject_def addNotification_def rerender_App_def
        localHandleAssignDriver_def handleAssignDriver_def Let_def)

lemma assignmentError_handleSave:
  "\<not> rejection_path getTime booking (d, v) s \<Longrightarrow>
     assignmentError (handleSave getTime booking (d, v) s) = []"
  by (simp add: handleSave_def rejection_path_def reject_def addNotification_def rerender_App_def
        localHandleAssignDriver_def handleAssignDriver_def Let_def)

lemma registries_handleSave [simp]:
  "drivers (handleSave getTime booking a s) = drivers s"
  "vehicleTypes (handleSave getTime booking a s) = vehicleTypes s"
  by (simp_all add: handleSave_def reject_def addNotification_def rerender_App_def
        localHandleAssignDriver_def handleAssignDriver_def Let_def)

lemma confirmationNumbers_handleSave:
  "map confirmationNumber (bookings (handleSave getTime booking a s))
     = map confirmationNumber (bookings s)"
  by (cases a) (simp add: bookings_handleSave o_def if_distrib cong: if_cong)

lemma same_confirmationNumber:
  assumes "distinct (map confirmationNumber bs)" and "a \<in> set bs" and "b \<in> set bs"
    and "confirmationNumber a = confirmationNumber b"
  shows "a = b"
  using assms by (meson distinct_map inj_onD)

lemma not_double_booked_target:
  assumes nr: "\<not> rejection_path getTime booking (d, v) s"
    and b: "b \<in> set (bookings s)"
    and ne: "confirmationNumber b \<noteq> confirmationNumber booking"
  shows "\<not> double_booked getTime (assign_fields (drivers s) (vehicleTypes s) d v booking) b"
    and "\<not> double_booked getTime b (assign_fields (drivers s) (vehicleTypes s) d v booking)"
proof -
  let ?t = "assign_fields (drivers s) (vehicleTypes s) d v booking"
  from nr have nd: "\<not> driverIsBooked getTime booking d (bookings s)"
    and nv: "\<not> vehicleIsBooked getTime booking v (bookings s)"
    by (simp_all add: rejection_path_def)
  have free: "bookingStatus b \<noteq> Cancelled \<Longrightarrow> isTimeOverlapping getTime booking b
      \<Longrightarrow> driverName b \<noteq> Some d \<and> map_option plate (assignedVehicle b) \<noteq> Some v"
    using nd nv b ne by (auto simp: driverIsBooked_def vehicleIsBooked_def list_ex_iff)
  have plate_t: "map_option plate (assignedVehicle ?t) = None
      \<or> map_option plate (assignedVehicle ?t) = Some v"
    by (cases "assign_vehicle (vehicleTypes s) v")
       (simp_all add: assign_fields_def assign_vehicle_plate)
  have driver_t: "driverName ?t = Some d"
    by (simp add: assign_fields_def)
  have share: "bookingStatus b \<noteq> Cancelled \<Longrightarrow> isTimeOverlapping getTime booking b
      \<Longrightarrow> \<not> shares_resource ?t b \<and> \<not> shares_resource b ?t"
  proof -
    assume "bookingStatus b \<noteq> Cancelled" and "isTimeOverlapping getTime booking b"
    from free [OF this] have fd: "driverName b \<noteq> Some d"
      and fv: "map_option plate (assignedVehicle b) \<noteq> Some v"
      by simp_all
    from plate_t fv have "assignedVehicle ?t = None
        \<or> map_option plate (assignedVehicle ?t) \<noteq> map_option plate (assignedVehicle b)"
      by (metis option.map_disc_iff)
    moreover from plate_t fv have "assignedVehicle b = None
        \<or> map_option plate (assignedVehicle b) \<noteq> map_option plate (assignedVehicle ?t)"
      by (metis option.map_disc_iff)
    ultimately show ?thesis
      using fd driver_t unfolding shares_resource_def by metis
  qed
  show "\<not> double_booked getTime ?t b"
    using share by (auto simp: double_booked_def isTimeOverlapping_assign_fields)
  show "\<not> double_booked getTime b ?t"
    using share isTimeOverlapping_sym [of getTime b booking]
    by (auto simp: double_booked_def isTimeOverlapping_assign_fields)
qed

lemma conflict_free_iff:
  "conflict_free getTime bs \<longleftrightarrow>
     (\<forall>a \<in> set bs. \<forall>b \<in> set bs.
        confirmationNumber a \<noteq> confirmationNumber b \<longrightarrow> \<not> double_booked getTime a b)"
  by (auto simp: conflict_free_def list_all_iff)

lemma conflict_free_unassigned:
  assumes "list_all unassigned bs"
  shows "conflict_free getTime bs"
  using assms
  by (auto simp: conflict_free_iff list_all_iff unassigned_def double_booked_def
        shares_resource_def)

lemma conflict_free_handleSave:
  assumes dist: "distinct (map confirmationNumber (bookings s))"
    and mem: "booking \<in> set (bookings s)"
    and inv: "conflict_free getTime (bookings s)"
  shows "conflict_free getTime (bookings (handleSave getTime booking a s))"
proof (cases a)
  case (Pair d v)
  show ?thesis
  proof (cases "rejection_path getTime booking (d, v) s")
    case True
    with inv Pair show ?thesis
      by (simp add: bookings_handleSave)
  next
    case False
    let ?f = "assign_fields (drivers s) (vehicleTypes s) d v"
    let ?g = "\<lambda>b. if confirmationNumber b = confirmationNumber booking then ?f b else b"
    have bs': "bookings (handleSave getTime booking a s) = map ?g (bookings s)"
      using False Pair by (simp add: bookings_handleSave)
    have key: "\<not> double_booked getTime (?g x) (?g y)"
      if x: "x \<in> set (bookings s)" and y: "y \<in> set (bookings s)"
        and ne: "confirmationNumber x \<noteq> confirmationNumber y" for x y
    proof (cases "confirmationNumber x = confirmationNumber booking")
      case True
      with dist mem x have "x = booking"
        by (simp add: same_confirmationNumber)
      moreover from True ne have "confirmationNumber y \<noteq> confirmationNumber booking"
        by simp
      ultimately show ?thesis
        using not_double_booked_target(1) [OF False y] by simp
    next
      case nx: False
      show ?thesis
      proof (cases "confirmationNumber y = confirmationNumber booking")
        case True
        with dist mem y have "y = booking"
          by (simp add: same_confirmationNumber)
        with nx show ?thesis
          using not_double_booked_target(2) [OF False x] by simp
      next
        case False
        with nx x y ne inv show ?thesis
          by (simp add: conflict_free_iff)
      qed
    qed
    have cn: "confirmationNumber (?g x) = confirmationNumber x" for x
      by simp
    show ?thesis
      unfolding bs' conflict_free_iff
    proof (intro ballI impI)
      fix a' b'
      assume "a' \<in> set (map ?g (bookings s))" and "b' \<in> set (map ?g (bookings s))"
        and ne: "confirmationNumber a' \<noteq> confirmationNumber b'"
      then obtain x y where x: "x \<in> set (bookings s)" "a' = ?g x"
        and y: "y \<in> set (bookings s)" "b' = ?g y"
        by auto
      from ne x(2) y(2) have "confirmationNumber x \<noteq> confirmationNumber y"
        by (simp only: cn simp_thms)
      from key [OF x(1) y(1) this] show "\<not> double_booked getTime a' b'"
        by (simp only: x(2) y(2) simp_thms)
    qed
  qed
qed

lemma saveAll_invariant:
  assumes "distinct (map confirmationNumber (bookings s))"
    and "conflict_free getTime (bookings s)"
  shows "distinct (map confirmationNumber (bookings (saveAll getTime ops s)))
       \<and> conflict_free getTime (bookings (saveAll getTime ops s))"
  using assms
proof (induction ops arbitrary: s)
  case Nil
  then show ?case by simp
next
  case (Cons step ops)
  obtain i a where step: "step = (i, a)"
    by (cases step)
  let ?s = "if i < length (bookings s) then handleSave getTime (bookings s ! i) a s else s"
  have "distinct (map confirmationNumber (bookings ?s))"
    using Cons.prems(1) by (simp add: confirmationNumbers_handleSave)
  moreover have "conflict_free getTime (bookings ?s)"
    using Cons.prems by (simp add: conflict_free_handleSave)
  ultimately show ?case
    using Cons.IH [of ?s] step by simp
qed

text \<open>
  Claim C1, as amended. In a store whose confirmation numbers are pairwise
  different and that starts with no assignments, after every sequence of Save
  operations (accepted or rejected) any two bookings at different positions are
  not double-booked: if neither is cancelled and they name the same driver, or
  vehicles with the same plate, the overlap detector returns false for them.
\<close>

theorem no_double_booking:
  assumes "distinct (map confirmationNumber (bookings s0))"
    and "list_all unassigned (bookings s0)"
    and "i < length (bookings (saveAll getTime ops s0))"
    and "j < length (bookings (saveAll getTime ops s0))"
    and "i \<noteq> j"
  shows "\<not> double_booked getTime (bookings (saveAll getTime ops s0) ! i)
                                 (bookings (saveAll getTime ops s0) ! j)"
proof -
  let ?bs = "bookings (saveAll getTime ops s0)"
  from assms(1,2) have d: "distinct (map confirmationNumber ?bs)"
    and c: "conflict_free getTime ?bs"
    using saveAll_invariant [of s0 getTime ops] by (simp_all add: conflict_free_unassigned)
  from d assms(3-5) have "confirmationNumber (?bs ! i) \<noteq> confirmationNumber (?bs ! j)"
    by (simp add: distinct_conv_nth)
  with c assms(3,4) show ?thesis
    by (simp add: conflict_free_iff)
qed


section \<open>Evaluation on the example data\<close>

lemmas example_defs =
  example_state_def initial_state_def INITIAL_DRIVERS_def INITIAL_VEHICLE_TYPES_def
  example_booking_def newBooking_def example_getTime_def

lemmas handler_defs =
  handleSave_def driverIsOffline_def driverIsBooked_def vehicleIsBooked_def reject_def
  addNotification_def rerender_App_def localHandleAssignDriver_def handleAssignDriver_def assign_fields_def
  assign_driver_def assign_vehicleTypeKey_def assign_vehicle_def phone_or_null_def
  status_or_offline_def isTimeOverlapping_def DURATION_MS_def slice_last4_def Let_def

text \<open>
  What is left of the state of the dashboard and of its items: a rejection with
  a notification shows its message in the notification only, and an accepted
  assignment leaves no \<^verbatim>\<open>justAssigned\<close>.
\<close>

lemma reject_state:
  "assignmentError (reject errorMessage s) = []"
  "notifications (reject errorMessage s) = notifications s @ [(errorMessage, Error)]"
  "bookings (reject errorMessage s) = bookings s"
  by (simp_all add: reject_def addNotification_def rerender_App_def)

lemma localHandleAssignDriver_state:
  "justAssigned (localHandleAssignDriver c d v s) = None"
  "assignmentError (localHandleAssignDriver c d v s) = []"
  by (simp_all add: localHandleAssignDriver_def rerender_App_def)

lemma length_bookings_handleSave [simp]:
  "length (bookings (handleSave getTime booking a s)) = length (bookings s)"
  by (cases a) (simp add: bookings_handleSave)

lemma length_bookings_saveAll [simp]:
  "length (bookings (saveAll getTime ops s)) = length (bookings s)"
  by (induction ops arbitrary: s) auto



lemma two_bookings_bookings:
  "bookings two_bookings =
     [example_booking ''SE1001'' ''Asha'' ''10:00'', example_booking ''SE1002'' ''Bharat'' ''10:30'']"
  by (simp add: two_bookings_def example_state_def)

lemma two_bookings_first:
  "bookings (saveAll example_getTime (take 1 two_bookings_run) two_bookings) =
     [(example_booking ''SE1001'' ''Asha'' ''10:00'')
        \<lparr> driverName := Some ''Ravi Kumar'', driverPhone := Some ''9876543210'',
          assignedVehicle := Some \<lparr> plate = ''MP20TA7001'', model = ''Tata Tigor XM EV'' \<rparr>,
          driverStatus := Some TripOnline, bookingStatus := Assigned \<rparr>,
      example_booking ''SE1002'' ''Bharat'' ''10:30'']"
  by (simp add: two_bookings_run_def two_bookings_def example_defs handler_defs)

lemma first_assigned_bookings:
  "bookings first_assigned =
     [(example_booking ''SE1001'' ''Asha'' ''10:00'')
        \<lparr> driverName := Some ''Ravi Kumar'', driverPhone := Some ''9876543210'',
          assignedVehicle := Some \<lparr> plate = ''MP20TA7001'', model = ''Tata Tigor XM EV'' \<rparr>,
          driverStatus := Some TripOnline, bookingStatus := Assigned \<rparr>,
      example_booking ''SE1002'' ''Bharat'' ''10:30'']"
  unfolding first_assigned_def by (rule two_bookings_first)

lemma first_assigned_registries:
  "drivers first_assigned = INITIAL_DRIVERS ''avatar''"
  "vehicleTypes first_assigned = INITIAL_VEHICLE_TYPES"
  by (simp_all add: first_assigned_def two_bookings_run_def two_bookings_def
        example_state_def initial_state_def)

lemma save_accepted_example:
  "bookings (handleSave example_getTime (example_booking ''SE1001'' ''Asha'' ''10:00'')
               (''Ravi Kumar'', ''MP20TA7001'') two_bookings) =
     [(example_booking ''SE1001'' ''Asha'' ''10:00'')
        \<lparr> driverName := Some ''Ravi Kumar'', driverPhone := Some ''9876543210'',
          assignedVehicle := Some \<lparr> plate = ''MP20TA7001'', model = ''Tata Tigor XM EV'' \<rparr>,
          driverStatus := Some TripOnline, bookingStatus := Assigned \<rparr>,
      example_booking ''SE1002'' ''Bharat'' ''10:30'']"
  by (simp add: two_bookings_def example_defs handler_defs)

lemma save_rejected_examples:
  "bookings (handleSave example_getTime (example_booking ''SE1002'' ''Bharat'' ''10:30'')
               (''Ravi Kumar'', ''MP20TA7002'') first_assigned) = bookings first_assigned"
  "bookings (handleSave example_getTime (example_booking ''SE1002'' ''Bharat'' ''10:30'')
               (''Sunita Sharma'', ''MP20TA7001'') first_assigned) = bookings first_assigned"
  "bookings (handleSave example_getTime (example_booking ''SE1001'' ''Asha'' ''10:00'')
               (''Ravi Kumar'', ''MP20TA7001'') ravi_offline) = bookings ravi_offline"
  "bookings (handleSave example_getTime (example_booking ''SE1001'' ''Asha'' ''10:00'')
               ([], ''MP20TA7001'') two_bookings) = bookings two_bookings"
proof -
  have d: "driverIsBooked example_getTime (example_booking ''SE1002'' ''Bharat'' ''10:30'')
      ''Ravi Kumar'' (bookings first_assigned)"
    unfolding first_assigned_bookings
    by (simp add: driverIsBooked_def isTimeOverlapping_def example_booking_def newBooking_def
          example_getTime_def DURATION_MS_def)
  have v: "vehicleIsBooked example_getTime (example_booking ''SE1002'' ''Bharat'' ''10:30'')
      ''MP20TA7001'' (bookings first_assigned)"
    unfolding first_assigned_bookings
    by (simp add: vehicleIsBooked_def isTimeOverlapping_def example_booking_def newBooking_def
          example_getTime_def DURATION_MS_def)
  have o: "driverIsOffline (drivers ravi_offline) ''Ravi Kumar''"
    by (simp add: driverIsOffline_def ravi_offline_def two_bookings_def example_defs)
  show "bookings (handleSave example_getTime (example_booking ''SE1002'' ''Bharat'' ''10:30'')
               (''Ravi Kumar'', ''MP20TA7002'') first_assigned) = bookings first_assigned"
    using d by (simp add: bookings_handleSave rejection_path_def)
  show "bookings (handleSave example_getTime (example_booking ''SE1002'' ''Bharat'' ''10:30'')
               (''Sunita Sharma'', ''MP20TA7001'') first_assigned) = bookings first_assigned"
    using v by (simp add: bookings_handleSave rejection_path_def)
  show "bookings (handleSave example_getTime (example_booking ''SE1001'' ''Asha'' ''10:00'')
               (''Ravi Kumar'', ''MP20TA7001'') ravi_offline) = bookings ravi_offline"
    using o by (simp add: bookings_handleSave rejection_path_def)
  show "bookings (handleSave example_getTime (example_booking ''SE1001'' ''Asha'' ''10:00'')
               ([], ''MP20TA7001'') two_bookings) = bookings two_bookings"
    by (simp add: bookings_handleSave rejection_path_def)
qed

section \<open>Rejections of the assignment\<close>

text \<open>
  Claim C2. Save is all-or-nothing. On every rejection path (a missing driver or
  vehicle selection, an offline driver, a driver time conflict, a vehicle time
  conflict) the call leaves the whole booking list, hence every field of the
  target booking, as it was. Only when no rejection path applies does it write
  \<^verbatim>\<open>driverName\<close>, \<^verbatim>\<open>driverPhone\<close>, \<^verbatim>\<open>assignedVehicle\<close>, \<^verbatim>\<open>driverStatus\<close> and
  \<^verbatim>\<open>bookingStatus\<close>, of the bookings with the target's confirmation number and
  of no other field. On the example data: the first Save is accepted and writes
  the driver, his phone, the vehicle, the status online and \<^verbatim>\<open>assigned\<close> into
  the first booking only; afterwards a Save on the second booking, which
  overlaps the first, is rejected with the same driver and with the same
  vehicle; a Save with an offline driver and a Save without a driver are
  rejected; each rejected Save leaves the booking list as it was.
\<close>

theorem handleSave_all_or_nothing:
  "(if rejection_path getTime booking (d, v) s
    then bookings (handleSave getTime booking (d, v) s) = bookings s
    else bookings (handleSave getTime booking (d, v) s) =
           map (\<lambda>b. if confirmationNumber b = confirmationNumber booking
                     then b\<lparr> driverName := Some d,
                             driverPhone := phone_or_null (assign_driver (drivers s) d),
                             assignedVehicle := assign_vehicle (vehicleTypes s) v,
                             driverStatus := Some (status_or_offline (assign_driver (drivers s) d)),
                             bookingStatus := Assigned \<rparr>
                     else b)
               (bookings s))
   \<and> bookings (handleSave example_getTime (example_booking ''SE1001'' ''Asha'' ''10:00'')
                 (''Ravi Kumar'', ''MP20TA7001'') two_bookings) =
       [(example_booking ''SE1001'' ''Asha'' ''10:00'')
          \<lparr> driverName := Some ''Ravi Kumar'', driverPhone := Some ''9876543210'',
            assignedVehicle := Some \<lparr> plate = ''MP20TA7001'', model = ''Tata Tigor XM EV'' \<rparr>,
            driverStatus := Some TripOnline, bookingStatus := Assigned \<rparr>,
        example_booking ''SE1002'' ''Bharat'' ''10:30'']
   \<and> bookings (handleSave example_getTime (example_booking ''SE1002'' ''Bharat'' ''10:30'')
                 (''Ravi Kumar'', ''MP20TA7002'') first_assigned) = bookings first_assigned
   \<and> bookings (handleSave example_getTime (example_booking ''SE1002'' ''Bharat'' ''10:30'')
                 (''Sunita Sharma'', ''MP20TA7001'') first_assigned) = bookings first_assigned
   \<and> bookings (handleSave example_getTime (example_booking ''SE1001'' ''Asha'' ''10:00'')
                 (''Ravi Kumar'', ''MP20TA7001'') ravi_offline) = bookings ravi_offline
   \<and> bookings (handleSave example_getTime (example_booking ''SE1001'' ''Asha'' ''10:00'')
                 ([], ''MP20TA7001'') two_bookings) = bookings two_bookings"
  unfolding save_accepted_example save_rejected_examples
  by (simp add: bookings_handleSave assign_fields_def)

text \<open>Where driver names are pairwise different, a name resolves to its driver.\<close>

lemma find_unique_name:
  assumes "distinct (map name ds)" and "dr \<in> set ds"
  shows "find (\<lambda>x. name x = name dr) ds = Some dr"
  using assms by (induction ds) (auto simp: image_iff)


lemma namesakes_drivers:
  "drivers namesakes =
     INITIAL_DRIVERS ''avatar''
       @ [\<lparr> name = ''Ravi Kumar'', phone = ''9123456780'', username = ''ravi2'',
             password = Some ''password456'', status = Offline, position = None,
             avatar = Some ''avatar'' \<rparr>]"
  by (simp add: namesakes_def two_bookings_def example_state_def initial_state_def)

lemma namesakes_bookings:
  "bookings (handleSave example_getTime (example_booking ''SE1001'' ''Asha'' ''10:00'')
               (''Ravi Kumar'', ''MP20TA7001'') namesakes) =
     [(example_booking ''SE1001'' ''Asha'' ''10:00'')
        \<lparr> driverName := Some ''Ravi Kumar'', driverPhone := Some ''9876543210'',
          assignedVehicle := Some \<lparr> plate = ''MP20TA7001'', model = ''Tata Tigor XM EV'' \<rparr>,
          driverStatus := Some TripOnline, bookingStatus := Assigned \<rparr>,
      example_booking ''SE1002'' ''Bharat'' ''10:30'']"
  by (simp add: namesakes_def two_bookings_def example_defs handler_defs)

text \<open>
  Claim C7, refuted as stated. Two drivers are named Ravi Kumar: the first is
  online, the second (username ravi2, the fifth record) is offline. Save with
  the name Ravi Kumar is accepted: the first booking, unassigned before,
  becomes \<^verbatim>\<open>assigned\<close> with that \<^verbatim>\<open>driverName\<close>.
\<close>

theorem offline_namesake_assigned:
  "username (drivers namesakes ! 4) = ''ravi2''
   \<and> name (drivers namesakes ! 4) = ''Ravi Kumar''
   \<and> status (drivers namesakes ! 4) = Offline
   \<and> map bookingStatus (bookings namesakes) = [Confirmed, Confirmed]
   \<and> map driverName (bookings namesakes) = [None, None]
   \<and> map bookingStatus
        (bookings (handleSave example_getTime (example_booking ''SE1001'' ''Asha'' ''10:00'')
                     (''Ravi Kumar'', ''MP20TA7001'') namesakes))
       = [Assigned, Confirmed]
   \<and> map driverName
        (bookings (handleSave example_getTime (example_booking ''SE1001'' ''Asha'' ''10:00'')
                     (''Ravi Kumar'', ''MP20TA7001'') namesakes))
       = [Some ''Ravi Kumar'', None]"
proof -
  have "bookings namesakes =
     [example_booking ''SE1001'' ''Asha'' ''10:00'', example_booking ''SE1002'' ''Bharat'' ''10:30'']"
    by (simp add: namesakes_def two_bookings_def example_state_def)
  then show ?thesis
    unfolding namesakes_bookings namesakes_drivers
    by (simp add: INITIAL_DRIVERS_def example_booking_def newBooking_def)
qed

text \<open>
  Claim C7, as amended. When the driver name of a Save resolves to a driver
  whose status is offline (a name resolves to the first driver record that
  carries it), the call is rejected whatever the bookings are: the booking list
  is unchanged, so the target keeps its assignment fields and its
  \<^verbatim>\<open>bookingStatus\<close>, and when both selections are present the offline message is
  shown as an error notification.
\<close>

theorem offline_driver_rejected:
  assumes "find (\<lambda>x. name x = d) (drivers s) = Some dr" and "status dr = Offline"
  shows "bookings (handleSave getTime booking (d, v) s) = bookings s
       \<and> (d \<noteq> [] \<and> v \<noteq> [] \<longrightarrow>
            notifications (handleSave getTime booking (d, v) s)
              = notifications s
                @ [(''Driver '' @ d @ '' is currently offline and cannot be assigned.'', Error)])"
proof -
  from assms have off: "driverIsOffline (drivers s) d"
    by (simp add: driverIsOffline_def)
  then have "rejection_path getTime booking (d, v) s"
    by (simp add: rejection_path_def)
  then show ?thesis
    using off
    by (simp add: bookings_handleSave)
       (simp add: handleSave_def reject_def addNotification_def rerender_App_def Let_def)
qed

lemma ravi_offline_find:
  "find (\<lambda>x. name x = ''Ravi Kumar'') (drivers ravi_offline)
     = Some \<lparr> name = ''Ravi Kumar'', phone = ''9876543210'', username = ''ravi'',
              password = Some ''password123'', status = Offline, position = None,
              avatar = Some ''avatar'' \<rparr>"
  by (simp add: ravi_offline_def two_bookings_def example_defs)

theorem offline_driver_rejected_witness:
  "find (\<lambda>x. name x = ''Ravi Kumar'') (drivers ravi_offline)
     = Some \<lparr> name = ''Ravi Kumar'', phone = ''9876543210'', username = ''ravi'',
              password = Some ''password123'', status = Offline, position = None,
              avatar = Some ''avatar'' \<rparr>
   \<and> bookings (handleSave example_getTime (example_booking ''SE1001'' ''Asha'' ''10:00'')
                 (''Ravi Kumar'', ''MP20TA7001'') ravi_offline) = bookings ravi_offline
   \<and> notifications (handleSave example_getTime (example_booking ''SE1001'' ''Asha'' ''10:00'')
                 (''Ravi Kumar'', ''MP20TA7001'') ravi_offline)
       = [(''Driver Ravi Kumar is currently offline and cannot be assigned.'', Error)]"
proof -
  have "notifications ravi_offline = []"
    by (simp add: ravi_offline_def two_bookings_def example_state_def initial_state_def)
  then show ?thesis
    using offline_driver_rejected [OF ravi_offline_find, of example_getTime
        "example_booking ''SE1001'' ''Asha'' ''10:00''" "''MP20TA7001''"]
    by (simp add: ravi_offline_find)
qed



section \<open>Unresolved driver and vehicle references\<close>

lemma unknown_driver_bookings:
  "bookings unknown_driver_after =
     [(example_booking ''SE1001'' ''Asha'' ''10:00'')
        \<lparr> driverName := Some ''Mohan Das'', driverPhone := None,
          assignedVehicle := Some \<lparr> plate = ''MP20TA7001'', model = ''Tata Tigor XM EV'' \<rparr>,
          driverStatus := Some TripOffline, bookingStatus := Assigned \<rparr>,
      example_booking ''SE1002'' ''Bharat'' ''10:30'']"
  by (simp add: unknown_driver_after_def two_bookings_def example_defs handler_defs)

lemma unknown_vehicle_bookings:
  "bookings unknown_vehicle_after =
     [(example_booking ''SE1001'' ''Asha'' ''10:00'')
        \<lparr> driverName := Some ''Ravi Kumar'', driverPhone := Some ''9876543210'',
          assignedVehicle := None,
          driverStatus := Some TripOnline, bookingStatus := Assigned \<rparr>,
      example_booking ''SE1002'' ''Bharat'' ''10:30'']"
  by (simp add: unknown_vehicle_after_def two_bookings_def example_defs handler_defs)

text \<open>
  Claim C8, refuted as stated. No driver record is named Mohan Das, yet Save
  with that name is accepted: the first booking becomes \<^verbatim>\<open>assigned\<close> with that
  \<^verbatim>\<open>driverName\<close> and a null \<^verbatim>\<open>driverPhone\<close>. No vehicle has the plate
  MP20XX0000, yet Save with that plate is accepted: the first booking becomes
  \<^verbatim>\<open>assigned\<close> with a null \<^verbatim>\<open>assignedVehicle\<close>.
\<close>

theorem unresolved_reference_assigned:
  "assign_driver (drivers two_bookings) ''Mohan Das'' = None
   \<and> assignmentError unknown_driver_after = []
   \<and> map bookingStatus (bookings two_bookings) = [Confirmed, Confirmed]
   \<and> map bookingStatus (bookings unknown_driver_after) = [Assigned, Confirmed]
   \<and> map driverName (bookings unknown_driver_after) = [Some ''Mohan Das'', None]
   \<and> map driverPhone (bookings unknown_driver_after) = [None, None]
   \<and> assign_vehicle (vehicleTypes two_bookings) ''MP20XX0000'' = None
   \<and> assignmentError unknown_vehicle_after = []
   \<and> map bookingStatus (bookings unknown_vehicle_after) = [Assigned, Confirmed]
   \<and> map assignedVehicle (bookings unknown_vehicle_after) = [None, None]"
proof -
  have "assign_driver (drivers two_bookings) ''Mohan Das'' = None"
    by (simp add: two_bookings_def example_defs assign_driver_def)
  moreover have "assign_vehicle (vehicleTypes two_bookings) ''MP20XX0000'' = None"
    by (simp add: two_bookings_def example_defs assign_vehicle_def assign_vehicleTypeKey_def)
  moreover have "assignmentError unknown_driver_after = []"
    by (simp add: unknown_driver_after_def two_bookings_def example_defs handler_defs)
  moreover have "assignmentError unknown_vehicle_after = []"
    by (simp add: unknown_vehicle_after_def two_bookings_def example_defs handler_defs)
  ultimately show ?thesis
    unfolding unknown_driver_bookings unknown_vehicle_bookings two_bookings_bookings
    by (simp add: example_booking_def newBooking_def)
qed

text \<open>
  Claim C8, as amended. A Save whose driver or vehicle selection is empty is
  rejected as a validation error and changes no booking. A non-empty driver
  name that resolves to no driver record, or a non-empty plate that resolves to
  no vehicle, is no reason for a rejection: when no conflict check rejects the
  call, the target is marked \<^verbatim>\<open>assigned\<close> with the given \<^verbatim>\<open>driverName\<close>, with a
  null \<^verbatim>\<open>driverPhone\<close> and \<^verbatim>\<open>driverStatus\<close> offline for an unresolved driver, and
  with a null \<^verbatim>\<open>assignedVehicle\<close> for an unresolved plate.
\<close>

theorem unresolved_reference:
  "(d = [] \<or> v = [] \<longrightarrow>
      bookings (handleSave getTime booking (d, v) s) = bookings s
      \<and> assignmentError (handleSave getTime booking (d, v) s)
          = ''Please select both a driver and a vehicle.'')
   \<and> (d \<noteq> [] \<and> v \<noteq> [] \<and> assign_driver (drivers s) d = None
        \<and> \<not> driverIsBooked getTime booking d (bookings s)
        \<and> \<not> vehicleIsBooked getTime booking v (bookings s) \<longrightarrow>
      assignmentError (handleSave getTime booking (d, v) s) = []
      \<and> bookings (handleSave getTime booking (d, v) s) =
          map (\<lambda>b. if confirmationNumber b = confirmationNumber booking
                    then b\<lparr> driverName := Some d, driverPhone := None,
                            assignedVehicle := assign_vehicle (vehicleTypes s) v,
                            driverStatus := Some TripOffline, bookingStatus := Assigned \<rparr>
                    else b)
              (bookings s))
   \<and> (d \<noteq> [] \<and> v \<noteq> [] \<and> assign_vehicle (vehicleTypes s) v = None
        \<and> \<not> driverIsOffline (drivers s) d
        \<and> \<not> driverIsBooked getTime booking d (bookings s)
        \<and> \<not> vehicleIsBooked getTime booking v (bookings s) \<longrightarrow>
      assignmentError (handleSave getTime booking (d, v) s) = []
      \<and> bookings (handleSave getTime booking (d, v) s) =
          map (\<lambda>b. if confirmationNumber b = confirmationNumber booking
                    then b\<lparr> driverName := Some d,
                            driverPhone := phone_or_null (assign_driver (drivers s) d),
                            assignedVehicle := None,
                            driverStatus := Some (status_or_offline (assign_driver (drivers s) d)),
                            bookingStatus := Assigned \<rparr>
                    else b)
              (bookings s))"
proof (intro conjI impI)
  assume "d = [] \<or> v = []"
  then show "bookings (handleSave getTime booking (d, v) s) = bookings s"
    by (auto simp add: bookings_handleSave rejection_path_def)
next
  assume "d = [] \<or> v = []"
  then show "assignmentError (handleSave getTime booking (d, v) s)
      = ''Please select both a driver and a vehicle.''"
    by (auto simp add: handleSave_def Let_def)
next
  assume a: "d \<noteq> [] \<and> v \<noteq> [] \<and> assign_driver (drivers s) d = None
        \<and> \<not> driverIsBooked getTime booking d (bookings s)
        \<and> \<not> vehicleIsBooked getTime booking v (bookings s)"
  then have nr: "\<not> rejection_path getTime booking (d, v) s"
    by (simp add: rejection_path_def driverIsOffline_def assign_driver_def)
  then show "assignmentError (handleSave getTime booking (d, v) s) = []"
    by (simp add: assignmentError_handleSave)
  from a nr show "bookings (handleSave getTime booking (d, v) s) =
          map (\<lambda>b. if confirmationNumber b = confirmationNumber booking
                    then b\<lparr> driverName := Some d, driverPhone := None,
                            assignedVehicle := assign_vehicle (vehicleTypes s) v,
                            driverStatus := Some TripOffline, bookingStatus := Assigned \<rparr>
                    else b)
              (bookings s)"
    by (simp add: bookings_handleSave assign_fields_def phone_or_null_def status_or_offline_def)
next
  assume a: "d \<noteq> [] \<and> v \<noteq> [] \<and> assign_vehicle (vehicleTypes s) v = None
        \<and> \<not> driverIsOffline (drivers s) d
        \<and> \<not> driverIsBooked getTime booking d (bookings s)
        \<and> \<not> vehicleIsBooked getTime booking v (bookings s)"
  then have nr: "\<not> rejection_path getTime booking (d, v) s"
    by (simp add: rejection_path_def)
  then show "assignmentError (handleSave getTime booking (d, v) s) = []"
    by (simp add: assignmentError_handleSave)
  from a nr show "bookings (handleSave getTime booking (d, v) s) =
          map (\<lambda>b. if confirmationNumber b = confirmationNumber booking
                    then b\<lparr> driverName := Some d,
                            driverPhone := phone_or_null (assign_driver (drivers s) d),
                            assignedVehicle := None,
                            driverStatus := Some (status_or_offline (assign_driver (drivers s) d)),
                            bookingStatus := Assigned \<rparr>
                    else b)
              (bookings s)"
    by (simp add: bookings_handleSave assign_fields_def)
qed

theorem unresolved_reference_witness:
  "''Mohan Das'' \<noteq> [] \<and> ''MP20TA7001'' \<noteq> []
   \<and> assign_driver (drivers two_bookings) ''Mohan Das'' = None
   \<and> \<not> driverIsBooked example_getTime (example_booking ''SE1001'' ''Asha'' ''10:00'')
         ''Mohan Das'' (bookings two_bookings)
   \<and> \<not> vehicleIsBooked example_getTime (example_booking ''SE1001'' ''Asha'' ''10:00'')
         ''MP20TA7001'' (bookings two_bookings)
   \<and> bookings (handleSave example_getTime (example_booking ''SE1001'' ''Asha'' ''10:00'')
         (''Mohan Das'', ''MP20TA7001'') two_bookings)
       = [(example_booking ''SE1001'' ''Asha'' ''10:00'')
            \<lparr> driverName := Some ''Mohan Das'', driverPhone := None,
              assignedVehicle := Some \<lparr> plate = ''MP20TA7001'', model = ''Tata Tigor XM EV'' \<rparr>,
              driverStatus := Some TripOffline, bookingStatus := Assigned \<rparr>,
          example_booking ''SE1002'' ''Bharat'' ''10:30'']
   \<and> bookings (handleSave example_getTime (example_booking ''SE1001'' ''Asha'' ''10:00'')
         ([], ''MP20TA7001'') two_bookings) = bookings two_bookings"
proof -
  have h1: "assign_driver (drivers two_bookings) ''Mohan Das'' = None"
    by (simp add: two_bookings_def example_defs assign_driver_def)
  have h2: "\<not> driverIsBooked example_getTime (example_booking ''SE1001'' ''Asha'' ''10:00'')
         ''Mohan Das'' (bookings two_bookings)"
    unfolding two_bookings_bookings
    by (simp add: driverIsBooked_def example_booking_def newBooking_def)
  have h3: "\<not> vehicleIsBooked example_getTime (example_booking ''SE1001'' ''Asha'' ''10:00'')
         ''MP20TA7001'' (bookings two_bookings)"
    unfolding two_bookings_bookings
    by (simp add: vehicleIsBooked_def example_booking_def newBooking_def)
  have v: "assign_vehicle (vehicleTypes two_bookings) ''MP20TA7001''
      = Some \<lparr> plate = ''MP20TA7001'', model = ''Tata Tigor XM EV'' \<rparr>"
    by (simp add: two_bookings_def example_defs assign_vehicle_def assign_vehicleTypeKey_def)
  show ?thesis
    using h1 h2 h3 v
      unresolved_reference [of "''Mohan Das''" "''MP20TA7001''" example_getTime
        "example_booking ''SE1001'' ''Asha'' ''10:00''" two_bookings]
      unresolved_reference [of "[]" "''MP20TA7001''" example_getTime
        "example_booking ''SE1001'' ''Asha'' ''10:00''" two_bookings]
    by (simp add: two_bookings_bookings example_booking_def newBooking_def)
qed



section \<open>Frame of assignment and cancellation\<close>

lemma map_target_length:
  "length (map (\<lambda>b. if confirmationNumber b = c then f b else b) bs) = length bs"
  by simp

lemma map_target_other:
  assumes "i < length bs" and "confirmationNumber (bs ! i) \<noteq> c"
  shows "map (\<lambda>b. if confirmationNumber b = c then f b else b) bs ! i = bs ! i"
  using assms by simp

lemma map_target_absent:
  assumes "c \<notin> confirmationNumber ` set bs"
  shows "map (\<lambda>b. if confirmationNumber b = c then f b else b) bs = bs"
  using assms by (induction bs) auto

lemma map_target_one:
  assumes d: "distinct (map confirmationNumber bs)"
    and i: "i < length bs" and j: "j < length bs"
    and ci: "map (\<lambda>b. if confirmationNumber b = c then f b else b) bs ! i \<noteq> bs ! i"
    and cj: "map (\<lambda>b. if confirmationNumber b = c then f b else b) bs ! j \<noteq> bs ! j"
  shows "i = j"
proof -
  from i ci have "confirmationNumber (bs ! i) = c"
    by (auto split: if_splits)
  moreover from j cj have "confirmationNumber (bs ! j) = c"
    by (auto split: if_splits)
  ultimately have "map confirmationNumber bs ! i = map confirmationNumber bs ! j"
    using i j by simp
  with d i j show "i = j"
    by (metis distinct_conv_nth length_map)
qed

lemma bookings_handleAssignDriver:
  "bookings (handleAssignDriver c d v s) =
     map (\<lambda>b. if confirmationNumber b = c
               then assign_fields (drivers s) (vehicleTypes s) d v b else b) (bookings s)"
  by (simp add: handleAssignDriver_def addNotification_def rerender_App_def)

lemma bookings_handleCancelBooking:
  "bookings (handleCancelBooking c s) =
     map (\<lambda>b. if confirmationNumber b = c then cancel_fields b else b) (bookings s)"
  by (simp add: handleCancelBooking_def addNotification_def rerender_App_def)

lemma frame_cases:
  assumes "bs' = bookings (handleAssignDriver c d v s)
         \<or> bs' = bookings (handleCancelBooking c s)
         \<or> (confirmationNumber booking = c
             \<and> bs' = bookings (handleSave getTime booking (d, v) s))"
  shows "bs' = bookings s
       \<or> (\<exists>f. bs' = map (\<lambda>b. if confirmationNumber b = c then f b else b) (bookings s))"
proof -
  from assms consider
      (assign) "bs' = bookings (handleAssignDriver c d v s)"
    | (cancel) "bs' = bookings (handleCancelBooking c s)"
    | (save) "confirmationNumber booking = c"
        "bs' = bookings (handleSave getTime booking (d, v) s)"
    by blast
  then show ?thesis
  proof cases
    case assign
    then have "bs' = map (\<lambda>b. if confirmationNumber b = c
        then assign_fields (drivers s) (vehicleTypes s) d v b else b) (bookings s)"
      by (simp only: bookings_handleAssignDriver)
    then show ?thesis by blast
  next
    case cancel
    then have "bs' = map (\<lambda>b. if confirmationNumber b = c then cancel_fields b else b) (bookings s)"
      by (simp only: bookings_handleCancelBooking)
    then show ?thesis by blast
  next
    case save
    show ?thesis
    proof (cases "rejection_path getTime booking (d, v) s")
      case True
      with save show ?thesis
        by (simp only: bookings_handleSave if_True simp_thms)
    next
      case False
      with save have "bs' = map (\<lambda>b. if confirmationNumber b = c
          then assign_fields (drivers s) (vehicleTypes s) d v b else b) (bookings s)"
        by (simp only: bookings_handleSave if_False)
      then show ?thesis by blast
    qed
  qed
qed

text \<open>
  Claim C10. Assignment (\<^verbatim>\<open>handleAssignDriver\<close>, and \<^verbatim>\<open>handleSave\<close> on the item of
  a booking with confirmation number \<open>c\<close>) and cancellation with the argument
  \<open>c\<close> keep the length of the booking list, leave every booking whose
  confirmation number is not \<open>c\<close> as it was, and leave the whole list as it was
  when no booking carries \<open>c\<close>; where confirmation numbers are pairwise
  different, at most one position of the list changes.
\<close>

theorem assign_cancel_frame:
  assumes "bs' = bookings (handleAssignDriver c d v s)
         \<or> bs' = bookings (handleCancelBooking c s)
         \<or> (confirmationNumber booking = c
             \<and> bs' = bookings (handleSave getTime booking (d, v) s))"
  shows "length bs' = length (bookings s)
       \<and> (\<forall>i < length (bookings s).
             confirmationNumber (bookings s ! i) \<noteq> c \<longrightarrow> bs' ! i = bookings s ! i)
       \<and> (c \<notin> confirmationNumber ` set (bookings s) \<longrightarrow> bs' = bookings s)
       \<and> (distinct (map confirmationNumber (bookings s)) \<longrightarrow>
            (\<forall>i < length (bookings s). \<forall>j < length (bookings s).
               bs' ! i \<noteq> bookings s ! i \<and> bs' ! j \<noteq> bookings s ! j \<longrightarrow> i = j))"
proof -
  from frame_cases [OF assms] show ?thesis
  proof
    assume "bs' = bookings s"
    then show ?thesis by simp
  next
    assume "\<exists>f. bs' = map (\<lambda>b. if confirmationNumber b = c then f b else b) (bookings s)"
    then obtain f where bs': "bs' = map (\<lambda>b. if confirmationNumber b = c then f b else b) (bookings s)"
      by blast
    show ?thesis
      unfolding bs'
      using map_target_absent [of c "bookings s" f] map_target_one [of "bookings s" _ _ c f]
      by (auto simp del: map_eq_conv)
  qed
qed



theorem assign_cancel_frame_witness:
  "length (bookings (handleCancelBooking ''SE1001'' two_bookings)) = 2
   \<and> confirmationNumber (bookings two_bookings ! 1) \<noteq> ''SE1001''
   \<and> bookings (handleCancelBooking ''SE1001'' two_bookings) ! 1 = bookings two_bookings ! 1
   \<and> ''SE9999'' \<notin> confirmationNumber ` set (bookings two_bookings)
   \<and> bookings (handleAssignDriver ''SE9999'' ''Ravi Kumar'' ''MP20TA7001'' two_bookings)
       = bookings two_bookings"
proof -
  have l: "length (bookings two_bookings) = 2"
    and c1: "confirmationNumber (bookings two_bookings ! 1) \<noteq> ''SE1001''"
    and c9: "''SE9999'' \<notin> confirmationNumber ` set (bookings two_bookings)"
    unfolding two_bookings_bookings
    by (simp_all add: example_booking_def newBooking_def)
  from l c1 c9 show ?thesis
    using
      assign_cancel_frame [of "bookings (handleCancelBooking ''SE1001'' two_bookings)"
        "''SE1001''" "[]" "[]" two_bookings "example_booking ''SE1001'' ''Asha'' ''10:00''"
        example_getTime]
      assign_cancel_frame [of
        "bookings (handleAssignDriver ''SE9999'' ''Ravi Kumar'' ''MP20TA7001'' two_bookings)"
        "''SE9999''" "''Ravi Kumar''" "''MP20TA7001''" two_bookings
        "example_booking ''SE1001'' ''Asha'' ''10:00''" example_getTime]
    by simp
qed

section \<open>Properties of the cancellation\<close>

lemma cancel_fields_idem: "cancel_fields (cancel_fields b) = cancel_fields b"
  by (simp add: cancel_fields_def)

lemma handleCancelBooking_twice:
  "handleCancelBooking c (handleCancelBooking c s) =
     addNotification (''Booking #'' @ slice_last4 c @ '' has been cancelled.'') Info
       (handleCancelBooking c s)"
  by (cases "selectedBooking s")
     (auto simp add: handleCancelBooking_def addNotification_def rerender_App_def cancel_fields_def o_def
        intro!: app_state.equality)

text \<open>
  Claim C6. Cancellation with the argument \<open>c\<close> turns every stored booking whose
  confirmation number is \<open>c\<close> into the same booking with \<^verbatim>\<open>bookingStatus\<close>
  cancelled, \<^verbatim>\<open>driverName\<close>, \<^verbatim>\<open>driverPhone\<close> and \<^verbatim>\<open>assignedVehicle\<close> null and
  \<^verbatim>\<open>driverStatus\<close> offline. It is idempotent on the store: a second cancellation
  with the same argument leaves the bookings, the guest's cached bookings, the
  selected booking, the drivers and the vehicles as the first one left them (it
  only shows its notification again, see \<open>handleCancelBooking_twice\<close>).
\<close>

theorem handleCancelBooking_correct:
  "(\<forall>i < length (bookings s). confirmationNumber (bookings s ! i) = c \<longrightarrow>
      bookings (handleCancelBooking c s) ! i
        = (bookings s ! i)\<lparr> bookingStatus := Cancelled, driverName := None, driverPhone := None,
                             assignedVehicle := None, driverStatus := Some TripOffline \<rparr>)
   \<and> bookings (handleCancelBooking c (handleCancelBooking c s)) = bookings (handleCancelBooking c s)
   \<and> guestBookings (handleCancelBooking c (handleCancelBooking c s))
       = guestBookings (handleCancelBooking c s)
   \<and> selectedBooking (handleCancelBooking c (handleCancelBooking c s))
       = selectedBooking (handleCancelBooking c s)
   \<and> drivers (handleCancelBooking c (handleCancelBooking c s)) = drivers s
   \<and> vehicleTypes (handleCancelBooking c (handleCancelBooking c s)) = vehicleTypes s"
proof -
  have "bookings (handleCancelBooking c s) ! i = cancel_fields (bookings s ! i)"
    if "i < length (bookings s)" "confirmationNumber (bookings s ! i) = c" for i
    using that by (simp add: bookings_handleCancelBooking)
  then show ?thesis
    by (simp add: handleCancelBooking_twice addNotification_def rerender_App_def)
       (simp add: handleCancelBooking_def addNotification_def rerender_App_def cancel_fields_def)
qed


section \<open>The scenario of two overlapping requests\<close>


lemma two_bookings_second_rejected:
  "bookings (saveAll example_getTime (take 2 two_bookings_run) two_bookings)
     = bookings (saveAll example_getTime (take 1 two_bookings_run) two_bookings)
   \<and> notifications (saveAll example_getTime (take 2 two_bookings_run) two_bookings)
     = [(''Driver assigned to booking #1001'', Success),
        (''Driver Ravi Kumar has an overlapping booking.'', Error)]"
  by (simp add: two_bookings_run_def two_bookings_def example_defs handler_defs)

lemma two_bookings_after:
  "bookings (saveAll example_getTime two_bookings_run two_bookings) =
     [(example_booking ''SE1001'' ''Asha'' ''10:00'')
        \<lparr> driverName := Some ''Ravi Kumar'', driverPhone := Some ''9876543210'',
          assignedVehicle := Some \<lparr> plate = ''MP20TA7001'', model = ''Tata Tigor XM EV'' \<rparr>,
          driverStatus := Some TripOnline, bookingStatus := Assigned \<rparr>,
      (example_booking ''SE1002'' ''Bharat'' ''10:30'')
        \<lparr> driverName := Some ''Sunita Sharma'', driverPhone := Some ''8765432109'',
          assignedVehicle := Some \<lparr> plate = ''MP20TA7002'', model = ''Tata Tigor XM EV'' \<rparr>,
          driverStatus := Some TripOnline, bookingStatus := Assigned \<rparr>]"
  by (simp add: two_bookings_run_def two_bookings_def example_defs handler_defs)

theorem no_double_booking_witness:
  "distinct (map confirmationNumber (bookings two_bookings))
   \<and> list_all unassigned (bookings two_bookings)
   \<and> length (bookings (saveAll example_getTime two_bookings_run two_bookings)) = 2
   \<and> isTimeOverlapping example_getTime
        (bookings (saveAll example_getTime two_bookings_run two_bookings) ! 0)
        (bookings (saveAll example_getTime two_bookings_run two_bookings) ! 1)
   \<and> \<not> double_booked example_getTime
        (bookings (saveAll example_getTime two_bookings_run two_bookings) ! 0)
        (bookings (saveAll example_getTime two_bookings_run two_bookings) ! 1)"
proof -
  have d: "distinct (map confirmationNumber (bookings two_bookings))"
    and u: "list_all unassigned (bookings two_bookings)"
    unfolding two_bookings_bookings
    by (simp_all add: example_booking_def newBooking_def unassigned_def)
  have l: "length (bookings (saveAll example_getTime two_bookings_run two_bookings)) = 2"
    by (simp add: two_bookings_bookings)
  have o: "isTimeOverlapping example_getTime
        (bookings (saveAll example_getTime two_bookings_run two_bookings) ! 0)
        (bookings (saveAll example_getTime two_bookings_run two_bookings) ! 1)"
    unfolding two_bookings_after
    by (simp add: isTimeOverlapping_def example_booking_def newBooking_def example_getTime_def
          DURATION_MS_def)
  from d u l o show ?thesis
    using no_double_booking [OF d u, of 0 example_getTime two_bookings_run 1]
    by simp
qed

theorem handleCancelBooking_correct_witness:
  "confirmationNumber (bookings (saveAll example_getTime two_bookings_run two_bookings) ! 0)
     = ''SE1001''
   \<and> map driverName (bookings (saveAll example_getTime two_bookings_run two_bookings))
       = [Some ''Ravi Kumar'', Some ''Sunita Sharma'']
   \<and> bookings (handleCancelBooking ''SE1001''
        (saveAll example_getTime two_bookings_run two_bookings)) ! 0
       = (bookings (saveAll example_getTime two_bookings_run two_bookings) ! 0)
           \<lparr> bookingStatus := Cancelled, driverName := None, driverPhone := None,
             assignedVehicle := None, driverStatus := Some TripOffline \<rparr>
   \<and> map driverName (bookings (handleCancelBooking ''SE1001''
        (saveAll example_getTime two_bookings_run two_bookings)))
       = [None, Some ''Sunita Sharma'']"
proof -
  let ?s = "saveAll example_getTime two_bookings_run two_bookings"
  have c: "confirmationNumber (bookings ?s ! 0) = ''SE1001''"
    unfolding two_bookings_after by (simp add: example_booking_def newBooking_def)
  have l: "0 < length (bookings ?s)"
    by (simp add: two_bookings_bookings)
  have n: "map driverName (bookings ?s) = [Some ''Ravi Kumar'', Some ''Sunita Sharma'']"
    unfolding two_bookings_after by simp
  have m: "map driverName (bookings (handleCancelBooking ''SE1001'' ?s))
      = [None, Some ''Sunita Sharma'']"
    unfolding bookings_handleCancelBooking two_bookings_after
    by (simp add: example_booking_def newBooking_def cancel_fields_def)
  from c l n m show ?thesis
    using handleCancelBooking_correct [of ?s "''SE1001''"]
    by simp
qed


section \<open>Duplicate confirmation numbers\<close>

lemma duplicate_after:
  "bookings duplicate_store_after =
     [(example_booking ''SE1001'' ''Asha'' ''10:00'')
        \<lparr> driverName := Some ''Ravi Kumar'', driverPhone := Some ''9876543210'',
          assignedVehicle := Some \<lparr> plate = ''MP20TA7001'', model = ''Tata Tigor XM EV'' \<rparr>,
          driverStatus := Some TripOnline, bookingStatus := Assigned \<rparr>,
      (example_booking ''SE1001'' ''Bharat'' ''10:30'')
        \<lparr> driverName := Some ''Ravi Kumar'', driverPhone := Some ''9876543210'',
          assignedVehicle := Some \<lparr> plate = ''MP20TA7001'', model = ''Tata Tigor XM EV'' \<rparr>,
          driverStatus := Some TripOnline, bookingStatus := Assigned \<rparr>]"
  by (simp add: duplicate_store_after_def duplicate_store_def example_defs handler_defs Let_def)

lemma duplicate_after_error: "assignmentError duplicate_store_after = []"
  by (simp add: duplicate_store_after_def duplicate_store_def example_defs handler_defs Let_def)

lemma duplicate_before:
  "bookings duplicate_store =
     [example_booking ''SE1001'' ''Asha'' ''10:00'', example_booking ''SE1001'' ''Bharat'' ''10:30'']"
  by (simp add: duplicate_store_def example_state_def)

text \<open>
  Claim C1, refuted as stated. The store starts with no assignments and holds
  two different bookings that carry the same confirmation number, at 10:00 and
  at 10:30. One accepted Save on the first item writes the driver and the
  vehicle into both: they are not cancelled, share the driver and the plate, and
  the overlap detector returns true for them.
\<close>

theorem duplicate_confirmationNumber_double_booked:
  "list_all unassigned (bookings duplicate_store)
   \<and> assignmentError duplicate_store_after = []
   \<and> length (bookings duplicate_store_after) = 2
   \<and> bookings duplicate_store_after ! 0 \<noteq> bookings duplicate_store_after ! 1
   \<and> double_booked example_getTime (bookings duplicate_store_after ! 0)
        (bookings duplicate_store_after ! 1)"
  unfolding duplicate_after duplicate_before duplicate_after_error
  by (simp add: example_booking_def newBooking_def example_getTime_def
        unassigned_def double_booked_def shares_resource_def isTimeOverlapping_def
        DURATION_MS_def)



section \<open>Properties of the payment\<close>

lemma bookings_handler:
  "bookings (handler booking pid s) =
     map (\<lambda>b. if confirmationNumber b = confirmationNumber booking
               then updatePaymentStatus pid b else b) (bookings s)"
  by (simp add: handler_def addNotification_def rerender_App_def Let_def)

lemma paid_store_bookings:
  "bookings paid_store =
     [(example_booking ''SE1001'' ''Asha'' ''10:00'')
        \<lparr> paymentStatus := Paid, paymentId := Some ''pay_A'' \<rparr>]"
  by (simp add: paid_store_def example_state_def)

text \<open>
  Claim C3, refuted as stated. The only booking of the store is paid, with the
  payment id pay_A. A successful checkout for its confirmation number records
  the new payment id pay_B in place of pay_A.
\<close>

theorem markPaid_overwrites_paymentId:
  "map paymentStatus (bookings paid_store) = [Paid]
   \<and> map paymentId (bookings paid_store) = [Some ''pay_A'']
   \<and> map paymentId
        (bookings (handlePayment True (Succeeded (Some ''pay_B''))
                     (example_booking ''SE1001'' ''Asha'' ''10:00'') paid_store))
       = [Some ''pay_B'']"
proof -
  have "razorpayKey paid_store \<noteq> []"
    by (simp add: paid_store_def)
  then show ?thesis
    unfolding handlePayment_def
    by (simp add: bookings_handler paid_store_bookings updatePaymentStatus_def
          example_booking_def newBooking_def)
qed

text \<open>
  Claim C3, as amended. A successful checkout sets \<^verbatim>\<open>paymentStatus\<close> to paid and
  records the given payment id on every stored booking with the confirmation
  number of the booking paid for, whatever its payment state was: on a booking
  that is already paid, \<^verbatim>\<open>paymentStatus\<close> stays paid and the recorded
  \<^verbatim>\<open>paymentId\<close> is replaced. The protection against a second payment is the
  rendering: neither pay button is shown for a displayed booking that is paid.
\<close>

theorem markPaid_unconditional:
  assumes "razorpayKey s \<noteq> []"
    and "i < length (bookings s)"
    and "confirmationNumber (bookings s ! i) = confirmationNumber booking"
  shows "bookings (handlePayment True (Succeeded pid) booking s) ! i
           = (bookings s ! i)\<lparr> paymentStatus := Paid, paymentId := pid \<rparr>
       \<and> (paymentStatus view = Paid \<longrightarrow>
            \<not> payButton_confirmation view \<and> \<not> payButton_tracking view)"
  using assms
  by (simp add: handlePayment_def bookings_handler updatePaymentStatus_def
        payButton_confirmation_def payButton_tracking_def)

theorem markPaid_unconditional_witness:
  "razorpayKey paid_store \<noteq> []
   \<and> confirmationNumber (bookings paid_store ! 0)
       = confirmationNumber (example_booking ''SE1001'' ''Asha'' ''10:00'')
   \<and> paymentStatus (bookings paid_store ! 0) = Paid
   \<and> bookings (handlePayment True (Succeeded (Some ''pay_B''))
                 (example_booking ''SE1001'' ''Asha'' ''10:00'') paid_store) ! 0
       = (bookings paid_store ! 0)\<lparr> paymentStatus := Paid, paymentId := Some ''pay_B'' \<rparr>
   \<and> \<not> payButton_confirmation (bookings paid_store ! 0)"
proof -
  have k: "razorpayKey paid_store \<noteq> []"
    by (simp add: paid_store_def)
  have l: "0 < length (bookings paid_store)"
    by (simp add: paid_store_bookings)
  have c: "confirmationNumber (bookings paid_store ! 0)
       = confirmationNumber (example_booking ''SE1001'' ''Asha'' ''10:00'')"
    by (simp add: paid_store_bookings)
  have p: "paymentStatus (bookings paid_store ! 0) = Paid"
    by (simp add: paid_store_bookings)
  from k c p show ?thesis
    using markPaid_unconditional [OF k l c, of "Some ''pay_B''" "bookings paid_store ! 0"]
    by simp
qed


section \<open>A rejected Save on the example data\<close>

theorem handleSave_all_or_nothing_witness:
  "rejection_path example_getTime (example_booking ''SE1002'' ''Bharat'' ''10:30'')
     (''Ravi Kumar'', ''MP20TA7002'')
     (saveAll example_getTime (take 1 two_bookings_run) two_bookings)
   \<and> bookings (handleSave example_getTime (example_booking ''SE1002'' ''Bharat'' ''10:30'')
       (''Ravi Kumar'', ''MP20TA7002'')
       (saveAll example_getTime (take 1 two_bookings_run) two_bookings))
     = bookings (saveAll example_getTime (take 1 two_bookings_run) two_bookings)"
proof -
  let ?s = "saveAll example_getTime (take 1 two_bookings_run) two_bookings"
  have "driverIsBooked example_getTime (example_booking ''SE1002'' ''Bharat'' ''10:30'')
      ''Ravi Kumar'' (bookings ?s)"
    unfolding two_bookings_first
    by (simp add: driverIsBooked_def isTimeOverlapping_def example_booking_def newBooking_def
          example_getTime_def DURATION_MS_def)
  then have r: "rejection_path example_getTime (example_booking ''SE1002'' ''Bharat'' ''10:30'')
     (''Ravi Kumar'', ''MP20TA7002'') ?s"
    by (simp add: rejection_path_def)
  then show ?thesis
    using handleSave_all_or_nothing [of example_getTime
        "example_booking ''SE1002'' ''Bharat'' ''10:30''" "''Ravi Kumar''" "''MP20TA7002''" ?s]
    by simp
qed

end
